theory Spec2Isabelle
  imports Main "HOL-Library.Word" "HOL-Library.Monad_Syntax"
begin

unbundle bit_operations_syntax

section \<open>Machine types\<close>

text \<open>
  The embedding follows the x64 build of libpe (\<^verbatim>\<open>_WIN64\<close>): \<^verbatim>\<open>DWORD_PTR\<close>,
  \<^verbatim>\<open>ULONGLONG\<close>, \<^verbatim>\<open>size_t\<close> and every pointer are 64-bit words, \<^verbatim>\<open>DWORD\<close> is a
  32-bit word, \<^verbatim>\<open>WORD\<close> a 16-bit word. Arithmetic on words wraps as in C++.
\<close>

type_synonym byte = "8 word"
type_synonym WORD = "16 word"
type_synonym DWORD = "32 word"
type_synonym ULONGLONG = "64 word"
type_synonym DWORD_PTR = "64 word"

section \<open>Records handed to client code\<close>

text \<open>
  Modelled from the spec: the declarations of \<^verbatim>\<open>winnt.h\<close> and \<^verbatim>\<open>libpe.h\<close> are not
  among the source files. The section header has the layout of the PE format
  (40 bytes); only the fields that the code under \<^verbatim>\<open>src/\<close> reads are kept as fields.
\<close>

record IMAGE_SECTION_HEADER =
  sh_Name :: "byte list"
  sh_VirtualSize :: DWORD
  sh_VirtualAddress :: DWORD
  sh_SizeOfRawData :: DWORD
  sh_PointerToRawData :: DWORD

record PESECHDR =
  sec_dwOffset :: DWORD
  SecHdr :: IMAGE_SECTION_HEADER
  SecName :: string

record PEFILEINFO =
  IsPE32 :: bool
  IsPE64 :: bool
  HasDosHdr :: bool
  HasRichHdr :: bool
  HasNTHdr :: bool
  HasDataDirs :: bool
  HasSections :: bool
  HasExport :: bool
  HasImport :: bool
  HasResource :: bool
  HasException :: bool
  HasSecurity :: bool
  HasReloc :: bool
  HasDebug :: bool
  HasArchitect :: bool
  HasGlobalPtr :: bool
  HasTLS :: bool
  HasLoadCFG :: bool
  HasBoundImp :: bool
  HasIAT :: bool
  HasDelayImp :: bool
  HasCOMDescr :: bool

text \<open>
  Modelled from the spec: \<^verbatim>\<open>PERICHHDR\<close> is declared in \<^verbatim>\<open>libpe.h\<close>, which is not among the
  source files. Its four members are kept in the order in which \<^verbatim>\<open>emplace_back\<close> fills them
  in \<^verbatim>\<open>ParseRichHeader\<close>, which is the order of the spec's RichEntry: file offset,
  product-id, build-id, use-count.
\<close>

record PERICHHDR =
  rich_dwOffset :: DWORD
  rich_wId :: WORD
  rich_wVersion :: WORD
  rich_dwCount :: DWORD

text \<open>
  \<^verbatim>\<open>PENtHeader\<close>: the copy of the NT headers (248 bytes for PE32, 264 bytes for PE32+, kept as
  raw bytes) and their file offset.
\<close>

record PENtHeader =
  nt_bytes :: "byte list"
  nt_dwOffset :: DWORD

text \<open>
  Modelled from the spec: the records of the directory results are declared in \<^verbatim>\<open>libpe.h\<close>.
  Their members are named as far as the sources name them (\<^verbatim>\<open>FlatResources\<close> and the
  delay-import parser access members by name) and follow the order in which
  \<^verbatim>\<open>emplace_back\<close> and the aggregate initialisers fill them. Copies of on-disk structures
  are kept as raw bytes; strings are the bytes before the terminating NUL.
\<close>

record PEExportFunction =
  dwFuncRVA :: DWORD
  dwOrdinal :: DWORD
  dwNameRVA :: DWORD
  FuncName :: "byte list"
  ForwarderName :: "byte list"

record PEExport =
  exp_dwOffset :: DWORD
  stExportDesc :: "byte list"
  exp_ModuleName :: "byte list"
  vecFuncs :: "PEExportFunction list"

text \<open>A thunk of an import table: the union of \<^verbatim>\<open>IMAGE_THUNK_DATA32\<close> and \<^verbatim>\<open>IMAGE_THUNK_DATA64\<close>.\<close>

datatype THUNK = Thunk32 DWORD | Thunk64 ULONGLONG

record IMAGE_IMPORT_BY_NAME =
  ibn_Hint :: WORD
  ibn_Name :: byte

record PEImportFunction =
  unThunk :: THUNK
  stImpByName :: IMAGE_IMPORT_BY_NAME
  imp_FuncName :: "byte list"

record PEImport =
  imp_dwOffset :: DWORD
  stImportDesc :: "byte list"
  imp_ModuleName :: "byte list"
  vecImportFunc :: "PEImportFunction list"

record PEDelayImportThunk =
  ImportAddressTable :: THUNK
  ImportNameTable :: THUNK
  BoundImportAddressTable :: THUNK
  UnloadInformationTable :: THUNK

record PEDelayImportFunc =
  unDelayThunk :: PEDelayImportThunk
  dly_stImpByName :: IMAGE_IMPORT_BY_NAME
  dly_FuncName :: "byte list"

record PEDelayImport =
  dly_dwOffset :: DWORD
  stDelayImpDesc :: "byte list"
  dly_ModuleName :: "byte list"
  vecDelayImpFunc :: "PEDelayImportFunc list"

record PERelocData =
  rel_dwOffset :: DWORD
  wRelocType :: WORD
  wRelocOffset :: WORD

record PEReloc =
  blk_dwOffset :: DWORD
  blk_VirtualAddress :: DWORD
  blk_SizeOfBlock :: DWORD
  vecRelocData :: "PERelocData list"

record PETLS =
  tls_dwOffset :: DWORD
  TLSDir :: "byte list"
  vecTLSCallbacks :: "DWORD list"

text \<open>
  The resource tree. An \<^verbatim>\<open>IMAGE_RESOURCE_DIRECTORY_ENTRY\<close> is two DWORDs whose bit fields
  (\<open>NameIsString\<close>, \<open>NameOffset\<close>, \<open>DataIsDirectory\<close>, \<open>OffsetToDirectory\<close>) are read by the
  functions defined with the resource parser.
\<close>

record IMAGE_RESOURCE_DIRECTORY_ENTRY =
  rde_Name :: DWORD
  rde_OffsetToData :: DWORD

record IMAGE_RESOURCE_DATA_ENTRY =
  rda_OffsetToData :: DWORD
  rda_Size :: DWORD
  rda_CodePage :: DWORD
  rda_Reserved :: DWORD

record PEResLevel3Data =
  l3_ResDirEntry :: IMAGE_RESOURCE_DIRECTORY_ENTRY
  l3_ResName :: "WORD list"
  l3_ResDataEntry :: IMAGE_RESOURCE_DATA_ENTRY
  l3_RawResData :: "byte list"

record PEResLevel3 =
  l3_dwOffset :: DWORD
  l3_ResDir :: "byte list"
  l3_ResData :: "PEResLevel3Data list"

record PEResLevel2Data =
  l2_ResDirEntry :: IMAGE_RESOURCE_DIRECTORY_ENTRY
  l2_ResName :: "WORD list"
  l2_ResDataEntry :: IMAGE_RESOURCE_DATA_ENTRY
  l2_RawResData :: "byte list"
  ResLvL3 :: PEResLevel3

record PEResLevel2 =
  l2_dwOffset :: DWORD
  l2_ResDir :: "byte list"
  l2_ResData :: "PEResLevel2Data list"

record PEResRootData =
  root_ResDirEntry :: IMAGE_RESOURCE_DIRECTORY_ENTRY
  root_ResName :: "WORD list"
  root_ResDataEntry :: IMAGE_RESOURCE_DATA_ENTRY
  root_RawResData :: "byte list"
  ResLvL2 :: PEResLevel2

record PEResRoot =
  root_dwOffset :: DWORD
  root_ResDir :: "byte list"
  root_ResData :: "PEResRootData list"

section \<open>The parser object\<close>

text \<open>
  The members of \<^verbatim>\<open>class Clibpe\<close>. \<open>m_ptr\<close> is the address of the mapped view
  (\<^verbatim>\<open>GetBaseAddr\<close>) and \<open>m_spnData\<close> the bytes of the file, which \<^verbatim>\<open>LoadPe(LPCWSTR)\<close>
  places at that address: \<^verbatim>\<open>m_spnData.data()\<close> is \<open>m_ptr\<close>. The copy of the DOS header is
  kept as its 64 raw bytes. Of the result members, those of the parsers embedded below are
  kept.
\<close>

record Clibpe =
  m_ptr :: DWORD_PTR
  m_fLoaded :: bool
  m_spnData :: "byte list"
  m_pNTHeader32 :: DWORD_PTR
  m_pNTHeader64 :: DWORD_PTR
  m_stFileInfo :: PEFILEINFO
  m_stMSDOSHeader :: "byte list"
  m_vecRichHeader :: "PERICHHDR list"
  m_stNTHeader :: PENtHeader
  m_vecSecHeaders :: "PESECHDR list"
  m_stExport :: PEExport
  m_vecImport :: "PEImport list"
  m_stResource :: PEResRoot
  m_vecRelocs :: "PEReloc list"
  m_stTLS :: PETLS
  m_vecDelayImp :: "PEDelayImport list"

definition PEFILEINFO_init :: PEFILEINFO where
  "PEFILEINFO_init =
     \<lparr>IsPE32 = False, IsPE64 = False, HasDosHdr = False, HasRichHdr = False,
      HasNTHdr = False, HasDataDirs = False, HasSections = False, HasExport = False,
      HasImport = False, HasResource = False, HasException = False, HasSecurity = False,
      HasReloc = False, HasDebug = False, HasArchitect = False, HasGlobalPtr = False,
      HasTLS = False, HasLoadCFG = False, HasBoundImp = False, HasIAT = False,
      HasDelayImp = False, HasCOMDescr = False\<rparr>"

text \<open>A parser object as its constructor leaves it, with the view mapped at \<open>p\<close>.\<close>

definition Clibpe_init :: "DWORD_PTR \<Rightarrow> Clibpe" where
  "Clibpe_init p =
     \<lparr>m_ptr = p, m_fLoaded = False, m_spnData = [], m_pNTHeader32 = 0, m_pNTHeader64 = 0,
      m_stFileInfo = PEFILEINFO_init, m_stMSDOSHeader = [], m_vecRichHeader = [],
      m_stNTHeader = \<lparr>nt_bytes = [], nt_dwOffset = 0\<rparr>, m_vecSecHeaders = [],
      m_stExport = \<lparr>exp_dwOffset = 0, stExportDesc = [], exp_ModuleName = [], vecFuncs = []\<rparr>,
      m_vecImport = [],
      m_stResource = \<lparr>root_dwOffset = 0, root_ResDir = [], root_ResData = []\<rparr>,
      m_vecRelocs = [],
      m_stTLS = \<lparr>tls_dwOffset = 0, TLSDir = [], vecTLSCallbacks = []\<rparr>,
      m_vecDelayImp = []\<rparr>"

definition ClearAll :: "Clibpe \<Rightarrow> Clibpe" where
  "ClearAll st = Clibpe_init (m_ptr st)"

definition GetBaseAddr :: "Clibpe \<Rightarrow> DWORD_PTR" where
  "GetBaseAddr st = m_ptr st"

definition GetDataSize :: "Clibpe \<Rightarrow> ULONGLONG" where
  "GetDataSize st = word_of_nat (length (m_spnData st))"

definition GetDosPtr :: "Clibpe \<Rightarrow> DWORD_PTR" where
  "GetDosPtr st = m_ptr st"

section \<open>Reading the mapped file\<close>

text \<open>
  The parser dereferences raw pointers into the view. A read of \<open>n\<close> bytes at address \<open>p\<close>
  has a value when all of \<open>[p, p + n)\<close> lies inside the view; a read that leaves the view
  is undefined behaviour in C++ and is \<open>None\<close> here. Every function that reads returns an
  option, and \<open>None\<close> propagates: it stands for the parser reading outside the buffer.
  Multi-byte values are little-endian.
\<close>

definition in_view :: "Clibpe \<Rightarrow> DWORD_PTR \<Rightarrow> nat \<Rightarrow> bool" where
  "in_view st p n \<longleftrightarrow>
     unat (m_ptr st) \<le> unat p \<and> unat p + n \<le> unat (m_ptr st) + length (m_spnData st)"

definition rd_bytes :: "Clibpe \<Rightarrow> DWORD_PTR \<Rightarrow> nat \<Rightarrow> byte list option" where
  "rd_bytes st p n =
     (if in_view st p n
      then Some (take n (drop (unat p - unat (m_ptr st)) (m_spnData st)))
      else None)"

fun le_nat :: "byte list \<Rightarrow> nat" where
  "le_nat [] = 0"
| "le_nat (b # bs) = unat b + 256 * le_nat bs"

definition rd8 :: "Clibpe \<Rightarrow> DWORD_PTR \<Rightarrow> byte option" where
  "rd8 st p = map_option (\<lambda>bs. word_of_nat (le_nat bs)) (rd_bytes st p 1)"

definition rd16 :: "Clibpe \<Rightarrow> DWORD_PTR \<Rightarrow> WORD option" where
  "rd16 st p = map_option (\<lambda>bs. word_of_nat (le_nat bs)) (rd_bytes st p 2)"

definition rd32 :: "Clibpe \<Rightarrow> DWORD_PTR \<Rightarrow> DWORD option" where
  "rd32 st p = map_option (\<lambda>bs. word_of_nat (le_nat bs)) (rd_bytes st p 4)"

definition rd64 :: "Clibpe \<Rightarrow> DWORD_PTR \<Rightarrow> ULONGLONG option" where
  "rd64 st p = map_option (\<lambda>bs. word_of_nat (le_nat bs)) (rd_bytes st p 8)"

text \<open>\<^verbatim>\<open>IsPtrSafe\<close>, on the address as a \<^verbatim>\<open>DWORD_PTR\<close>; the sum \<open>ullMaxAddr\<close> wraps.\<close>

definition IsPtrSafe :: "Clibpe \<Rightarrow> DWORD_PTR \<Rightarrow> bool \<Rightarrow> bool" where
  "IsPtrSafe st dwAddr fCanReferenceBoundary =
     (let ullMaxAddr = GetBaseAddr st + GetDataSize st in
      if dwAddr = 0 then False
      else if fCanReferenceBoundary
        then dwAddr \<le> ullMaxAddr \<and> dwAddr \<ge> GetBaseAddr st
        else dwAddr < ullMaxAddr \<and> dwAddr \<ge> GetBaseAddr st)"

definition PtrToOffset :: "Clibpe \<Rightarrow> DWORD_PTR \<Rightarrow> DWORD" where
  "PtrToOffset st lp = (if lp = 0 then 0 else ucast (lp - GetBaseAddr st))"

section \<open>Address arithmetic\<close>

text \<open>
  \<^verbatim>\<open>RVAToOffset\<close>: the loop runs over all of \<open>m_vecSecHeaders\<close> and overwrites
  \<open>dwOffset\<close> at every section whose test (\<open>sec_contains\<close>) succeeds, with the
  value of the loop body (\<open>sec_offset\<close>). The sum
  \<^verbatim>\<open>VirtualAddress + Misc.VirtualSize\<close> and the subtraction are \<^verbatim>\<open>DWORD\<close> arithmetic;
  the comparison with \<open>ullRVA\<close> is made after the promotion to 64 bits.
\<close>

definition sec_contains :: "PESECHDR \<Rightarrow> ULONGLONG \<Rightarrow> bool" where
  "sec_contains iter ullRVA =
     (let pSecHdr = SecHdr iter in
      ullRVA \<ge> ucast (sh_VirtualAddress pSecHdr)
      \<and> ullRVA < ucast (sh_VirtualAddress pSecHdr + sh_VirtualSize pSecHdr))"

definition sec_offset :: "Clibpe \<Rightarrow> ULONGLONG \<Rightarrow> PESECHDR \<Rightarrow> DWORD" where
  "sec_offset st ullRVA iter =
     (let pSecHdr = SecHdr iter;
          dwOffset = ucast ullRVA - (sh_VirtualAddress pSecHdr - sh_PointerToRawData pSecHdr)
      in if dwOffset > ucast (GetDataSize st) then 0 else dwOffset)"

definition RVAToOffset_step :: "Clibpe \<Rightarrow> ULONGLONG \<Rightarrow> DWORD \<Rightarrow> PESECHDR \<Rightarrow> DWORD" where
  "RVAToOffset_step st ullRVA dwOffset iter =
     (if sec_contains iter ullRVA then sec_offset st ullRVA iter else dwOffset)"

definition RVAToOffset :: "Clibpe \<Rightarrow> ULONGLONG \<Rightarrow> DWORD" where
  "RVAToOffset st ullRVA = foldl (RVAToOffset_step st ullRVA) 0 (m_vecSecHeaders st)"

definition GetOffsetFromRVA :: "Clibpe \<Rightarrow> ULONGLONG \<Rightarrow> DWORD" where
  "GetOffsetFromRVA st ullRVA = (if \<not> m_fLoaded st then 0 else RVAToOffset st ullRVA)"

section \<open>Header parsers\<close>

text \<open>
  Modelled from the spec: the result codes of \<^verbatim>\<open>LoadPe\<close> (\<^verbatim>\<open>libpe.h\<close>) and the constants and
  macros of \<^verbatim>\<open>winnt.h\<close> are not among the source files. The offsets of the members read
  below are those of the PE format: \<^verbatim>\<open>e_lfanew\<close> (a signed \<^verbatim>\<open>LONG\<close>) at 0x3C of the DOS
  header; in the NT headers \<^verbatim>\<open>Signature\<close> at 0, \<^verbatim>\<open>FileHeader\<close> at 4 and
  \<^verbatim>\<open>OptionalHeader.Magic\<close> at 24; \<^verbatim>\<open>sizeof(IMAGE_NT_HEADERS32)\<close> is 248 and
  \<^verbatim>\<open>sizeof(IMAGE_NT_HEADERS64)\<close> is 264. Assertions are compiled out (release build).
\<close>

datatype LoadResult = PEOK | ERR_FILE_SIZESMALL | ERR_FILE_NODOSHDR

definition IMAGE_DOS_SIGNATURE :: WORD where "IMAGE_DOS_SIGNATURE = 0x5A4D"
definition IMAGE_NT_SIGNATURE :: DWORD where "IMAGE_NT_SIGNATURE = 0x00004550"
definition IMAGE_NT_OPTIONAL_HDR32_MAGIC :: WORD where "IMAGE_NT_OPTIONAL_HDR32_MAGIC = 0x10B"
definition IMAGE_NT_OPTIONAL_HDR64_MAGIC :: WORD where "IMAGE_NT_OPTIONAL_HDR64_MAGIC = 0x20B"

definition HIWORD :: "DWORD \<Rightarrow> WORD" where
  "HIWORD l = ucast (drop_bit 16 l AND 0xFFFF)"

definition LOWORD :: "DWORD \<Rightarrow> WORD" where
  "LOWORD l = ucast (l AND 0xFFFF)"

text \<open>\<^verbatim>\<open>ParseMSDOSHeader\<close>: the result and the updated parser.\<close>

definition ParseMSDOSHeader :: "Clibpe \<Rightarrow> (bool \<times> Clibpe) option" where
  "ParseMSDOSHeader st = do {
     let pDosHdr = GetDosPtr st;
     e_magic \<leftarrow> rd16 st pDosHdr;
     if e_magic \<noteq> IMAGE_DOS_SIGNATURE then Some (False, st)
     else do {
       hdr \<leftarrow> rd_bytes st pDosHdr 64;
       Some (True, st\<lparr>m_stMSDOSHeader := hdr,
                       m_stFileInfo := (m_stFileInfo st)\<lparr>HasDosHdr := True\<rparr>\<rparr>)
     }
   }"

text \<open>
  \<^verbatim>\<open>ParseRichHeader\<close>. \<open>rich_entries\<close> is the inner loop over \<open>j < dwRichSize\<close>, \<open>rich_scan\<close>
  the outer loop over \<open>i < (e_lfanew - 0x80) / 4\<close>; both count the iterations that remain.
  The second operand of \<^verbatim>\<open>&&\<close> is read only when the first DWORD is "Rich".
\<close>

fun rich_entries :: "Clibpe \<Rightarrow> DWORD \<Rightarrow> DWORD_PTR \<Rightarrow> nat \<Rightarrow> PERICHHDR list \<Rightarrow> PERICHHDR list option" where
  "rich_entries st dwRichXORMask pRichIter 0 vec = Some vec"
| "rich_entries st dwRichXORMask pRichIter (Suc n) vec = do {
     a \<leftarrow> rd32 st pRichIter;
     b \<leftarrow> rd32 st (pRichIter + 4);
     rich_entries st dwRichXORMask (pRichIter + 8) n
       (vec @ [\<lparr>rich_dwOffset = ucast (pRichIter - GetBaseAddr st),
                rich_wId = HIWORD (dwRichXORMask XOR a),
                rich_wVersion = LOWORD (dwRichXORMask XOR a),
                rich_dwCount = dwRichXORMask XOR b\<rparr>])
   }"

fun rich_scan :: "Clibpe \<Rightarrow> DWORD_PTR \<Rightarrow> nat \<Rightarrow> (bool \<times> Clibpe) option" where
  "rich_scan st pRichIter 0 = Some (False, st)"
| "rich_scan st pRichIter (Suc n) = do {
     let ullBaseAddr = GetBaseAddr st;
     let pRichStartVA = ullBaseAddr + 0x80;
     v \<leftarrow> rd32 st pRichIter;
     if v \<noteq> 0x68636952 then rich_scan st (pRichIter + 4) n
     else do {
       s0 \<leftarrow> rd32 st pRichStartVA;
       k \<leftarrow> rd32 st (pRichIter + 4);
       if (s0 XOR k) = 0x536E6144 \<and> pRichIter \<ge> ullBaseAddr + 0x90 then do {
         let dwRichSize = (ucast ((pRichIter - ullBaseAddr) - 0x90) :: DWORD) div 8;
         dwRichXORMask \<leftarrow> rd32 st (pRichIter + 4);
         vec \<leftarrow> rich_entries st dwRichXORMask (ullBaseAddr + 0x90) (unat dwRichSize)
                  (m_vecRichHeader st);
         Some (True, st\<lparr>m_vecRichHeader := vec,
                         m_stFileInfo := (m_stFileInfo st)\<lparr>HasRichHdr := True\<rparr>\<rparr>)
       }
       else rich_scan st (pRichIter + 4) n
     }
   }"

definition ParseRichHeader :: "Clibpe \<Rightarrow> (bool \<times> Clibpe) option" where
  "ParseRichHeader st = do {
     let ullBaseAddr = GetBaseAddr st;
     e_lfanew \<leftarrow> rd32 st (GetDosPtr st + 0x3C);
     if e_lfanew \<le>s 0x80 \<or> \<not> IsPtrSafe st (ullBaseAddr + scast e_lfanew) False
     then Some (False, st)
     else rich_scan st (ullBaseAddr + 0x80) (nat ((sint e_lfanew - 0x80) div 4))
   }"

text \<open>
  \<^verbatim>\<open>ParseNTFileOptHeader\<close>. The cast of the signed \<^verbatim>\<open>e_lfanew\<close> to \<^verbatim>\<open>DWORD_PTR\<close> extends the
  sign. Only the address past the end of the headers is checked with \<^verbatim>\<open>IsPtrSafe\<close>.
\<close>

definition ParseNTFileOptHeader :: "Clibpe \<Rightarrow> (bool \<times> Clibpe) option" where
  "ParseNTFileOptHeader st = do {
     e_lfanew \<leftarrow> rd32 st (GetDosPtr st + 0x3C);
     let pNTHeader = GetBaseAddr st + scast e_lfanew;
     if \<not> IsPtrSafe st (pNTHeader + 248) False then Some (False, st)
     else do {
       Signature \<leftarrow> rd32 st pNTHeader;
       if Signature \<noteq> IMAGE_NT_SIGNATURE then Some (False, st)
       else do {
         Magic \<leftarrow> rd16 st (pNTHeader + 24);
         if Magic = IMAGE_NT_OPTIONAL_HDR32_MAGIC then do {
           hdr \<leftarrow> rd_bytes st pNTHeader 248;
           Some (True, st\<lparr>m_pNTHeader32 := pNTHeader,
                           m_stNTHeader := \<lparr>nt_bytes = hdr, nt_dwOffset = PtrToOffset st pNTHeader\<rparr>,
                           m_stFileInfo := (m_stFileInfo st)\<lparr>IsPE32 := True, HasNTHdr := True\<rparr>\<rparr>)
         }
         else if Magic = IMAGE_NT_OPTIONAL_HDR64_MAGIC then do {
           hdr \<leftarrow> rd_bytes st pNTHeader 264;
           Some (True, st\<lparr>m_pNTHeader64 := pNTHeader,
                           m_stNTHeader := \<lparr>nt_bytes = hdr, nt_dwOffset = PtrToOffset st pNTHeader\<rparr>,
                           m_stFileInfo := (m_stFileInfo st)\<lparr>IsPE64 := True, HasNTHdr := True\<rparr>\<rparr>)
         }
         else Some (False, st)
       }
     }
   }"

text \<open>
  \<^verbatim>\<open>LoadPe(std::span)\<close>. The seventeen directory parsers that run after the NT headers were
  parsed (\<^verbatim>\<open>ParseDataDirectories\<close> to \<^verbatim>\<open>ParseCOMDescriptor\<close>) are the parameter
  \<open>ParseDirectories\<close>: what is proved of \<open>LoadPe\<close> holds whatever they do.
\<close>

definition LoadPe ::
  "(Clibpe \<Rightarrow> Clibpe option) \<Rightarrow> byte list \<Rightarrow> Clibpe \<Rightarrow> (LoadResult \<times> Clibpe) option" where
  "LoadPe ParseDirectories spnFile st0 =
     (let st1 = (if m_fLoaded st0 then ClearAll st0 else st0) in
      if length spnFile < 64 then Some (ERR_FILE_SIZESMALL, st1)
      else do {
        let st2 = st1\<lparr>m_spnData := spnFile\<rparr>;
        (dos, st3) \<leftarrow> ParseMSDOSHeader st2;
        if \<not> dos then Some (ERR_FILE_NODOSHDR, st3)
        else do {
          let st4 = st3\<lparr>m_fLoaded := True\<rparr>;
          (rich, st5) \<leftarrow> ParseRichHeader st4;
          (nt, st6) \<leftarrow> ParseNTFileOptHeader st5;
          if nt then do { st7 \<leftarrow> ParseDirectories st6; Some (PEOK, st7) }
          else Some (PEOK, st6)
        }
      })"

section \<open>Directory parsers: addresses\<close>

text \<open>
  Modelled from the spec: \<^verbatim>\<open>MAX_PATH\<close>, the indices \<^verbatim>\<open>IMAGE_DIRECTORY_ENTRY_*\<close> and the macro
  \<^verbatim>\<open>IMAGE_FIRST_SECTION\<close> come from the Windows headers, which are not among the source
  files; their values are the ones of the PE format the spec refers to.
\<close>

definition MAX_PATH :: nat where "MAX_PATH = 260"

definition IMAGE_DIRECTORY_ENTRY_EXPORT :: nat where "IMAGE_DIRECTORY_ENTRY_EXPORT = 0"

definition IMAGE_DIRECTORY_ENTRY_IMPORT :: nat where "IMAGE_DIRECTORY_ENTRY_IMPORT = 1"

definition IMAGE_DIRECTORY_ENTRY_RESOURCE :: nat where "IMAGE_DIRECTORY_ENTRY_RESOURCE = 2"

definition IMAGE_DIRECTORY_ENTRY_BASERELOC :: nat where "IMAGE_DIRECTORY_ENTRY_BASERELOC = 5"

definition IMAGE_DIRECTORY_ENTRY_TLS :: nat where "IMAGE_DIRECTORY_ENTRY_TLS = 9"

definition IMAGE_DIRECTORY_ENTRY_DELAY_IMPORT :: nat where "IMAGE_DIRECTORY_ENTRY_DELAY_IMPORT = 13"

text \<open>
  \<^verbatim>\<open>GetDirEntryRVA\<close>, \<^verbatim>\<open>GetDirEntrySize\<close> and \<^verbatim>\<open>GetImageBase\<close> read the optional header through
  \<open>m_pNTHeader32\<close> or \<open>m_pNTHeader64\<close>, whichever the flags select.
\<close>

definition GetDirEntryRVA :: "Clibpe \<Rightarrow> nat \<Rightarrow> DWORD option" where
  "GetDirEntryRVA st dwEntry =
     (if \<not> HasNTHdr (m_stFileInfo st) then Some 0
      else if IsPE32 (m_stFileInfo st)
        then rd32 st (m_pNTHeader32 st + 120 + 8 * word_of_nat dwEntry)
      else if IsPE64 (m_stFileInfo st)
        then rd32 st (m_pNTHeader64 st + 136 + 8 * word_of_nat dwEntry)
      else Some 0)"

definition GetDirEntrySize :: "Clibpe \<Rightarrow> nat \<Rightarrow> DWORD option" where
  "GetDirEntrySize st dwEntry =
     (if \<not> HasNTHdr (m_stFileInfo st) then Some 0
      else if IsPE32 (m_stFileInfo st)
        then rd32 st (m_pNTHeader32 st + 120 + 8 * word_of_nat dwEntry + 4)
      else if IsPE64 (m_stFileInfo st)
        then rd32 st (m_pNTHeader64 st + 136 + 8 * word_of_nat dwEntry + 4)
      else Some 0)"

definition GetImageBase :: "Clibpe \<Rightarrow> ULONGLONG option" where
  "GetImageBase st =
     (if IsPE32 (m_stFileInfo st) then map_option ucast (rd32 st (m_pNTHeader32 st + 52))
      else if IsPE64 (m_stFileInfo st) then rd64 st (m_pNTHeader64 st + 48)
      else Some 0)"

definition IMAGE_FIRST_SECTION :: "Clibpe \<Rightarrow> DWORD_PTR \<Rightarrow> DWORD_PTR option" where
  "IMAGE_FIRST_SECTION st ntheader = do {
     SizeOfOptionalHeader \<leftarrow> rd16 st (ntheader + 20);
     Some (ntheader + 24 + ucast SizeOfOptionalHeader)
   }"

text \<open>
  \<^verbatim>\<open>GetSecHdrFromRVA\<close>: the first section header, in table order, whose virtual range holds the
  RVA; the loop stops at a header whose end is not a safe address. The result \<open>0\<close> is the
  null pointer.
\<close>

fun GetSecHdrFromRVA_loop :: "Clibpe \<Rightarrow> ULONGLONG \<Rightarrow> DWORD_PTR \<Rightarrow> nat \<Rightarrow> DWORD_PTR option" where
  "GetSecHdrFromRVA_loop st ullRVA pSecHdr 0 = Some 0"
| "GetSecHdrFromRVA_loop st ullRVA pSecHdr (Suc n) =
     (if \<not> IsPtrSafe st (pSecHdr + 40) False then Some 0
      else do {
        va \<leftarrow> rd32 st (pSecHdr + 12);
        if ullRVA \<ge> ucast va then do {
          vs \<leftarrow> rd32 st (pSecHdr + 8);
          if ullRVA < ucast (va + vs) then Some pSecHdr
          else GetSecHdrFromRVA_loop st ullRVA (pSecHdr + 40) n
        }
        else GetSecHdrFromRVA_loop st ullRVA (pSecHdr + 40) n
      })"

definition GetSecHdrFromRVA :: "Clibpe \<Rightarrow> ULONGLONG \<Rightarrow> DWORD_PTR option" where
  "GetSecHdrFromRVA st ullRVA =
     (if IsPE32 (m_stFileInfo st) \<and> HasNTHdr (m_stFileInfo st) then do {
        pSecHdr \<leftarrow> IMAGE_FIRST_SECTION st (m_pNTHeader32 st);
        wNumOfSections \<leftarrow> rd16 st (m_pNTHeader32 st + 6);
        GetSecHdrFromRVA_loop st ullRVA pSecHdr (unat wNumOfSections)
      }
      else if IsPE64 (m_stFileInfo st) \<and> HasNTHdr (m_stFileInfo st) then do {
        pSecHdr \<leftarrow> IMAGE_FIRST_SECTION st (m_pNTHeader64 st);
        wNumOfSections \<leftarrow> rd16 st (m_pNTHeader64 st + 6);
        GetSecHdrFromRVA_loop st ullRVA pSecHdr (unat wNumOfSections)
      }
      else Some 0)"

text \<open>
  \<^verbatim>\<open>RVAToPtr\<close>: the address in the view of an RVA, or the null pointer. The difference
  \<open>VirtualAddress - PointerToRawData\<close> is computed in 32 bits and then widened.
\<close>

definition RVAToPtr :: "Clibpe \<Rightarrow> ULONGLONG \<Rightarrow> DWORD_PTR option" where
  "RVAToPtr st ullRVA = do {
     pSecHdr \<leftarrow> GetSecHdrFromRVA st ullRVA;
     if pSecHdr = 0 then Some 0
     else do {
       va \<leftarrow> rd32 st (pSecHdr + 12);
       raw \<leftarrow> rd32 st (pSecHdr + 20);
       let ptr = GetBaseAddr st + ullRVA - ucast (va - raw);
       Some (if IsPtrSafe st ptr True then ptr else 0)
     }
   }"

text \<open>
  Modelled from the spec: \<^verbatim>\<open>StringCchLengthA\<close> is a function of \<^verbatim>\<open>strsafe.h\<close>. It looks for the
  terminating zero among the first \<open>cchMax\<close> bytes: the outer \<open>None\<close> is a read outside the view,
  \<open>Some None\<close> is the failure (no terminator), \<open>Some (Some s)\<close> the bytes before the terminator.
  \<open>read_name\<close> is the idiom the parsers use around it: a null pointer or a failure gives the
  empty name.
\<close>

fun StringCchLengthA :: "Clibpe \<Rightarrow> DWORD_PTR \<Rightarrow> nat \<Rightarrow> byte list option option" where
  "StringCchLengthA st psz 0 = Some None"
| "StringCchLengthA st psz (Suc cchMax) = do {
     c \<leftarrow> rd8 st psz;
     if c = 0 then Some (Some [])
     else do {
       r \<leftarrow> StringCchLengthA st (psz + 1) cchMax;
       Some (map_option ((#) c) r)
     }
   }"

definition read_name :: "Clibpe \<Rightarrow> DWORD_PTR \<Rightarrow> byte list option" where
  "read_name st psz =
     (if psz = 0 then Some []
      else do {
        r \<leftarrow> StringCchLengthA st psz MAX_PATH;
        Some (case r of None \<Rightarrow> [] | Some str \<Rightarrow> str)
      })"

section \<open>Directory parsers: exports\<close>

text \<open>
  \<^verbatim>\<open>ParseExport\<close>. The outer loop runs over \<open>AddressOfFunctions\<close>, the inner one looks the index
  up in \<open>AddressOfNameOrdinals\<close>; both are counted down on the iterations that remain, with the
  running index beside it.
\<close>

fun export_name_loop ::
  "Clibpe \<Rightarrow> DWORD_PTR \<Rightarrow> DWORD_PTR \<Rightarrow> nat \<Rightarrow> nat \<Rightarrow> nat \<Rightarrow> (DWORD \<times> byte list) option" where
  "export_name_loop st pwOrdinals pdwNamesRVA iterFuncs iterFuncNames 0 = Some (0, [])"
| "export_name_loop st pwOrdinals pdwNamesRVA iterFuncs iterFuncNames (Suc n) =
     (if \<not> IsPtrSafe st (pwOrdinals + 2 * word_of_nat iterFuncNames) False then Some (0, [])
      else do {
        ord \<leftarrow> rd16 st (pwOrdinals + 2 * word_of_nat iterFuncNames);
        if unat ord = iterFuncs then do {
          dwNameRVA \<leftarrow> rd32 st (pdwNamesRVA + 4 * word_of_nat iterFuncNames);
          pszFuncName \<leftarrow> RVAToPtr st (ucast dwNameRVA);
          strFuncName \<leftarrow> read_name st pszFuncName;
          Some (dwNameRVA, strFuncName)
        }
        else export_name_loop st pwOrdinals pdwNamesRVA iterFuncs (Suc iterFuncNames) n
      })"

fun export_funcs_loop ::
  "Clibpe \<Rightarrow> DWORD_PTR \<Rightarrow> DWORD_PTR \<Rightarrow> DWORD_PTR \<Rightarrow> DWORD_PTR \<Rightarrow> DWORD \<Rightarrow> DWORD \<Rightarrow> nat \<Rightarrow> nat
   \<Rightarrow> PEExportFunction list \<Rightarrow> PEExportFunction list option" where
  "export_funcs_loop st pExportDir pdwFuncsRVA pwOrdinals pdwNamesRVA dwExportStartRVA
     dwExportEndRVA iterFuncs 0 vecF = Some vecF"
| "export_funcs_loop st pExportDir pdwFuncsRVA pwOrdinals pdwNamesRVA dwExportStartRVA
     dwExportEndRVA iterFuncs (Suc n) vecF =
     (if \<not> IsPtrSafe st (pdwFuncsRVA + 4 * word_of_nat iterFuncs) False then Some vecF
      else do {
        rva \<leftarrow> rd32 st (pdwFuncsRVA + 4 * word_of_nat iterFuncs);
        if rva \<noteq> 0 then do {
          (dwNameRVA, strFuncName) \<leftarrow>
            (if pdwNamesRVA \<noteq> 0 \<and> pwOrdinals \<noteq> 0 then do {
               NumberOfNames \<leftarrow> rd32 st (pExportDir + 24);
               export_name_loop st pwOrdinals pdwNamesRVA iterFuncs 0 (unat NumberOfNames)
             }
             else Some (0, []));
          strForwarderName \<leftarrow>
            (if rva \<ge> dwExportStartRVA \<and> rva \<le> dwExportEndRVA then do {
               pszForwarderName \<leftarrow> RVAToPtr st (ucast rva);
               read_name st pszForwarderName
             }
             else Some []);
          export_funcs_loop st pExportDir pdwFuncsRVA pwOrdinals pdwNamesRVA dwExportStartRVA
            dwExportEndRVA (Suc iterFuncs) n
            (vecF @ [\<lparr>dwFuncRVA = rva, dwOrdinal = word_of_nat iterFuncs,
                          dwNameRVA = dwNameRVA, FuncName = strFuncName,
                          ForwarderName = strForwarderName\<rparr>])
        }
        else export_funcs_loop st pExportDir pdwFuncsRVA pwOrdinals pdwNamesRVA dwExportStartRVA
               dwExportEndRVA (Suc iterFuncs) n vecF
      })"

definition ParseExport :: "Clibpe \<Rightarrow> (bool \<times> Clibpe) option" where
  "ParseExport st = do {
     dwExportStartRVA \<leftarrow> GetDirEntryRVA st IMAGE_DIRECTORY_ENTRY_EXPORT;
     dwExportSize \<leftarrow> GetDirEntrySize st IMAGE_DIRECTORY_ENTRY_EXPORT;
     let dwExportEndRVA = dwExportStartRVA + dwExportSize;
     pExportDir \<leftarrow> RVAToPtr st (ucast dwExportStartRVA);
     if pExportDir = 0 then Some (False, st)
     else do {
       AddressOfFunctions \<leftarrow> rd32 st (pExportDir + 28);
       pdwFuncsRVA \<leftarrow> RVAToPtr st (ucast AddressOfFunctions);
       if pdwFuncsRVA = 0 then Some (False, st)
       else do {
         AddressOfNameOrdinals \<leftarrow> rd32 st (pExportDir + 36);
         pwOrdinals \<leftarrow> RVAToPtr st (ucast AddressOfNameOrdinals);
         AddressOfNames \<leftarrow> rd32 st (pExportDir + 32);
         pdwNamesRVA \<leftarrow> RVAToPtr st (ucast AddressOfNames);
         NumberOfFunctions \<leftarrow> rd32 st (pExportDir + 20);
         vecF \<leftarrow> export_funcs_loop st pExportDir pdwFuncsRVA pwOrdinals pdwNamesRVA
                       dwExportStartRVA dwExportEndRVA 0 (unat NumberOfFunctions) [];
         Name \<leftarrow> rd32 st (pExportDir + 12);
         szExportName \<leftarrow> RVAToPtr st (ucast Name);
         strModuleName \<leftarrow> read_name st szExportName;
         desc \<leftarrow> rd_bytes st pExportDir 40;
         Some (True, st\<lparr>m_stExport := \<lparr>exp_dwOffset = PtrToOffset st pExportDir,
                                         stExportDesc = desc,
                                         exp_ModuleName = strModuleName,
                                         vecFuncs = vecF\<rparr>,
                         m_stFileInfo := (m_stFileInfo st)\<lparr>HasExport := True\<rparr>\<rparr>)
       }
     }
   }"

section \<open>Directory parsers: imports\<close>

text \<open>
  Modelled from the spec: \<^verbatim>\<open>IMAGE_ORDINAL_FLAG32\<close> and \<^verbatim>\<open>IMAGE_ORDINAL_FLAG64\<close> are constants of
  \<^verbatim>\<open>winnt.h\<close>: bit 31 of a 32-bit thunk and bit 63 of a 64-bit thunk.
\<close>

definition IMAGE_ORDINAL_FLAG32 :: DWORD where "IMAGE_ORDINAL_FLAG32 = 0x80000000"

definition IMAGE_ORDINAL_FLAG64 :: ULONGLONG where "IMAGE_ORDINAL_FLAG64 = 0x8000000000000000"

text \<open>
  The two limits of \<^verbatim>\<open>ParseImport\<close>. The counters compared with them are of type \<^verbatim>\<open>int\<close>; they
  are 32-bit words here, so that every loop below is defined for every value of its counter.
  Started at \<open>0\<close>, as the parser starts them, they never wrap.
\<close>

definition iMaxModules :: "32 word" where "iMaxModules = 1000"

definition iMaxFuncs :: "32 word" where "iMaxFuncs = 5000"

text \<open>
  The block of the thunk loops that follows \<open>AddressOfData\<close>: when the RVA has an address in the
  view and the name there ends within \<^verbatim>\<open>MAX_PATH\<close> bytes, the \<^verbatim>\<open>IMAGE_IMPORT_BY_NAME\<close> and the name
  are copied; otherwise both stay as they were initialised, zero and empty.
\<close>

definition IMAGE_IMPORT_BY_NAME_zero :: IMAGE_IMPORT_BY_NAME where
  "IMAGE_IMPORT_BY_NAME_zero = \<lparr>ibn_Hint = 0, ibn_Name = 0\<rparr>"

definition read_import_by_name :: "Clibpe \<Rightarrow> ULONGLONG \<Rightarrow> (IMAGE_IMPORT_BY_NAME \<times> byte list) option" where
  "read_import_by_name st AddressOfData = do {
     pName \<leftarrow> RVAToPtr st AddressOfData;
     if pName \<noteq> 0 then do {
       r \<leftarrow> StringCchLengthA st (pName + 2) MAX_PATH;
       case r of
         None \<Rightarrow> Some (IMAGE_IMPORT_BY_NAME_zero, [])
       | Some strFuncName \<Rightarrow> do {
           Hint \<leftarrow> rd16 st pName;
           Name \<leftarrow> rd8 st (pName + 2);
           Some (\<lparr>ibn_Hint = Hint, ibn_Name = Name\<rparr>, strFuncName)
         }
     }
     else Some (IMAGE_IMPORT_BY_NAME_zero, [])
   }"

text \<open>
  The loop over the thunks of one module of a PE32 file: the loop ends at a zero thunk, at a
  next thunk whose address is not safe, and when the incremented counter equals \<open>iMaxFuncs\<close>.
\<close>

function import_thunk32_loop ::
  "Clibpe \<Rightarrow> DWORD_PTR \<Rightarrow> 32 word \<Rightarrow> PEImportFunction list \<Rightarrow> PEImportFunction list option" where
  "import_thunk32_loop st pThunk32 iFuncsCount vecFunc = do {
     thunk \<leftarrow> rd32 st pThunk32;
     if thunk = 0 then Some vecFunc
     else do {
       (stImpByName, strFuncName) \<leftarrow>
         (if thunk AND IMAGE_ORDINAL_FLAG32 = 0 then read_import_by_name st (ucast thunk)
          else Some (IMAGE_IMPORT_BY_NAME_zero, []));
       if \<not> IsPtrSafe st (pThunk32 + 4) False
         then Some (vecFunc @ [\<lparr>unThunk = Thunk32 thunk, stImpByName = stImpByName,
                                 imp_FuncName = strFuncName\<rparr>])
       else if iFuncsCount + 1 = iMaxFuncs
         then Some (vecFunc @ [\<lparr>unThunk = Thunk32 thunk, stImpByName = stImpByName,
                                 imp_FuncName = strFuncName\<rparr>])
       else import_thunk32_loop st (pThunk32 + 4) (iFuncsCount + 1)
              (vecFunc @ [\<lparr>unThunk = Thunk32 thunk, stImpByName = stImpByName,
                            imp_FuncName = strFuncName\<rparr>])
     }
   }"
  by pat_completeness auto

text \<open>A counter that is incremented and then compared with its limit comes closer to it.\<close>

lemma word_pred_less:
  fixes d :: "32 word"
  assumes "d \<noteq> 0"
  shows "unat (d - 1) < unat d"
  using assms by (simp add: unat_minus_one unat_gt_0)

lemma count_up_measure:
  fixes c m :: "32 word"
  assumes "c + 1 \<noteq> m"
  shows "unat (m - 1 - (c + 1)) < unat (m - 1 - c)"
proof -
  have nz: "m - 1 - c \<noteq> 0"
  proof
    assume "m - 1 - c = 0"
    hence "m = c + 1" by (simp add: algebra_simps)
    thus False using assms by simp
  qed
  have eq: "m - 1 - (c + 1) = (m - 1 - c) - 1" by (simp add: algebra_simps)
  show ?thesis unfolding eq by (rule word_pred_less [OF nz])
qed

termination import_thunk32_loop
  apply (relation "measure (\<lambda>(st, p, c, v). unat (iMaxFuncs - 1 - c))")
   apply (rule wf_measure)
  apply (simp only: in_measure prod.case)
  apply (rule count_up_measure)
  apply assumption
  done

declare import_thunk32_loop.simps [simp del]

text \<open>
  The loop over the thunks of one module of a PE32+ file. The thunk is tested against
  \<^verbatim>\<open>IMAGE_ORDINAL_FLAG32\<close> widened to 64 bits; the pointer is advanced without a test; the counter
  is incremented and compared twice.
\<close>

function import_thunk64_loop ::
  "Clibpe \<Rightarrow> DWORD_PTR \<Rightarrow> 32 word \<Rightarrow> PEImportFunction list \<Rightarrow> PEImportFunction list option" where
  "import_thunk64_loop st pThunk64 iFuncsCount vecFunc = do {
     thunk \<leftarrow> rd64 st pThunk64;
     if thunk = 0 then Some vecFunc
     else do {
       (stImpByName, strFuncName) \<leftarrow>
         (if thunk AND ucast IMAGE_ORDINAL_FLAG32 = 0 then read_import_by_name st thunk
          else Some (IMAGE_IMPORT_BY_NAME_zero, []));
       if iFuncsCount + 1 = iMaxFuncs
         then Some (vecFunc @ [\<lparr>unThunk = Thunk64 thunk, stImpByName = stImpByName,
                                 imp_FuncName = strFuncName\<rparr>])
       else if iFuncsCount + 1 + 1 = iMaxFuncs
         then Some (vecFunc @ [\<lparr>unThunk = Thunk64 thunk, stImpByName = stImpByName,
                                 imp_FuncName = strFuncName\<rparr>])
       else import_thunk64_loop st (pThunk64 + 8) (iFuncsCount + 1 + 1)
              (vecFunc @ [\<lparr>unThunk = Thunk64 thunk, stImpByName = stImpByName,
                            imp_FuncName = strFuncName\<rparr>])
     }
   }"
  by pat_completeness auto

termination import_thunk64_loop
  apply (relation "measure (\<lambda>(st, p, c, v). unat (iMaxFuncs - 1 - c))")
   apply (rule wf_measure)
  apply (simp only: in_measure prod.case)
  apply (rule less_trans [OF count_up_measure count_up_measure])
   apply assumption+
  done

declare import_thunk64_loop.simps [simp del]

text \<open>
  The loops over the import descriptors. A descriptor whose thunk RVA has no address in the view
  ends the PE32 loop and makes the PE32+ parser return \<open>false\<close> (the first component of the result).
\<close>

function import_desc32_loop ::
  "Clibpe \<Rightarrow> DWORD_PTR \<Rightarrow> 32 word \<Rightarrow> PEImport list \<Rightarrow> PEImport list option" where
  "import_desc32_loop st pImpDesc iModulesCount vecImport = do {
     Name \<leftarrow> rd32 st (pImpDesc + 12);
     if Name = 0 then Some vecImport
     else do {
       OriginalFirstThunk \<leftarrow> rd32 st pImpDesc;
       thunkRVA \<leftarrow> (if OriginalFirstThunk \<noteq> 0 then Some OriginalFirstThunk
                    else rd32 st (pImpDesc + 16));
       if thunkRVA \<noteq> 0 then do {
         pThunk32 \<leftarrow> RVAToPtr st (ucast thunkRVA);
         if pThunk32 = 0 then Some vecImport
         else do {
           vecFunc \<leftarrow> import_thunk32_loop st pThunk32 0 [];
           szName \<leftarrow> RVAToPtr st (ucast Name);
           strDllName \<leftarrow> read_name st szName;
           desc \<leftarrow> rd_bytes st pImpDesc 20;
           if \<not> IsPtrSafe st (pImpDesc + 20) False
             then Some (vecImport @ [\<lparr>imp_dwOffset = PtrToOffset st pImpDesc, stImportDesc = desc,
                                       imp_ModuleName = strDllName, vecImportFunc = vecFunc\<rparr>])
           else if iModulesCount + 1 = iMaxModules
             then Some (vecImport @ [\<lparr>imp_dwOffset = PtrToOffset st pImpDesc, stImportDesc = desc,
                                       imp_ModuleName = strDllName, vecImportFunc = vecFunc\<rparr>])
           else import_desc32_loop st (pImpDesc + 20) (iModulesCount + 1)
                  (vecImport @ [\<lparr>imp_dwOffset = PtrToOffset st pImpDesc, stImportDesc = desc,
                                  imp_ModuleName = strDllName, vecImportFunc = vecFunc\<rparr>])
         }
       }
       else if \<not> IsPtrSafe st (pImpDesc + 20) False then Some vecImport
       else if iModulesCount + 1 = iMaxModules then Some vecImport
       else import_desc32_loop st (pImpDesc + 20) (iModulesCount + 1) vecImport
     }
   }"
  by pat_completeness auto

termination import_desc32_loop
  apply (relation "measure (\<lambda>(st, p, c, v). unat (iMaxModules - 1 - c))")
    apply (rule wf_measure)
   apply (simp only: in_measure prod.case)
   apply (rule count_up_measure)
   apply assumption
  apply (simp only: in_measure prod.case)
  apply (rule count_up_measure)
  apply assumption
  done

declare import_desc32_loop.simps [simp del]

function import_desc64_loop ::
  "Clibpe \<Rightarrow> DWORD_PTR \<Rightarrow> 32 word \<Rightarrow> PEImport list \<Rightarrow> (bool \<times> PEImport list) option" where
  "import_desc64_loop st pImpDesc iModulesCount vecImport = do {
     Name \<leftarrow> rd32 st (pImpDesc + 12);
     if Name = 0 then Some (True, vecImport)
     else do {
       OriginalFirstThunk \<leftarrow> rd32 st pImpDesc;
       thunkRVA \<leftarrow> (if OriginalFirstThunk \<noteq> 0 then Some OriginalFirstThunk
                    else rd32 st (pImpDesc + 16));
       if thunkRVA \<noteq> 0 then do {
         pThunk64 \<leftarrow> RVAToPtr st (ucast thunkRVA);
         if pThunk64 = 0 then Some (False, vecImport)
         else do {
           vecFunc \<leftarrow> import_thunk64_loop st pThunk64 0 [];
           szName \<leftarrow> RVAToPtr st (ucast Name);
           strDllName \<leftarrow> read_name st szName;
           desc \<leftarrow> rd_bytes st pImpDesc 20;
           if \<not> IsPtrSafe st (pImpDesc + 20) False
             then Some (True, vecImport @ [\<lparr>imp_dwOffset = PtrToOffset st pImpDesc,
                          stImportDesc = desc, imp_ModuleName = strDllName, vecImportFunc = vecFunc\<rparr>])
           else if iModulesCount + 1 = iMaxModules
             then Some (True, vecImport @ [\<lparr>imp_dwOffset = PtrToOffset st pImpDesc,
                          stImportDesc = desc, imp_ModuleName = strDllName, vecImportFunc = vecFunc\<rparr>])
           else import_desc64_loop st (pImpDesc + 20) (iModulesCount + 1)
                  (vecImport @ [\<lparr>imp_dwOffset = PtrToOffset st pImpDesc, stImportDesc = desc,
                                  imp_ModuleName = strDllName, vecImportFunc = vecFunc\<rparr>])
         }
       }
       else if \<not> IsPtrSafe st (pImpDesc + 20) False then Some (True, vecImport)
       else if iModulesCount + 1 = iMaxModules then Some (True, vecImport)
       else import_desc64_loop st (pImpDesc + 20) (iModulesCount + 1) vecImport
     }
   }"
  by pat_completeness auto

termination import_desc64_loop
  apply (relation "measure (\<lambda>(st, p, c, v). unat (iMaxModules - 1 - c))")
    apply (rule wf_measure)
   apply (simp only: in_measure prod.case)
   apply (rule count_up_measure)
   apply assumption
  apply (simp only: in_measure prod.case)
  apply (rule count_up_measure)
  apply assumption
  done

declare import_desc64_loop.simps [simp del]

definition ParseImport :: "Clibpe \<Rightarrow> (bool \<times> Clibpe) option" where
  "ParseImport st = do {
     rva \<leftarrow> GetDirEntryRVA st IMAGE_DIRECTORY_ENTRY_IMPORT;
     pImpDesc \<leftarrow> RVAToPtr st (ucast rva);
     if pImpDesc = 0 then Some (False, st)
     else if IsPE32 (m_stFileInfo st) then do {
       vecImport \<leftarrow> import_desc32_loop st pImpDesc 0 (m_vecImport st);
       Some (True, st\<lparr>m_vecImport := vecImport,
                       m_stFileInfo := (m_stFileInfo st)\<lparr>HasImport := True\<rparr>\<rparr>)
     }
     else if IsPE64 (m_stFileInfo st) then do {
       (fContinue, vecImport) \<leftarrow> import_desc64_loop st pImpDesc 0 (m_vecImport st);
       if fContinue
         then Some (True, st\<lparr>m_vecImport := vecImport,
                              m_stFileInfo := (m_stFileInfo st)\<lparr>HasImport := True\<rparr>\<rparr>)
       else Some (False, st\<lparr>m_vecImport := vecImport\<rparr>)
     }
     else Some (True, st\<lparr>m_stFileInfo := (m_stFileInfo st)\<lparr>HasImport := True\<rparr>\<rparr>)
   }"

section \<open>The spec's address translation\<close>

text \<open>
  The words of the spec, over the integers: a section's virtual range is
  \<open>[VirtualAddress, VirtualAddress + VirtualSize)\<close> and the offset of an RVA \<open>r\<close> in it is
  \<open>r - VirtualAddress + PointerToRawData\<close>. \<open>vrange32\<close> is the range with its end taken
  modulo \<open>2^32\<close>, as a \<^verbatim>\<open>DWORD\<close> sum gives it.
\<close>

definition spec_in_vrange :: "IMAGE_SECTION_HEADER \<Rightarrow> ULONGLONG \<Rightarrow> bool" where
  "spec_in_vrange s r \<longleftrightarrow>
     uint (sh_VirtualAddress s) \<le> uint r \<and> uint r < uint (sh_VirtualAddress s) + uint (sh_VirtualSize s)"

definition spec_offset :: "IMAGE_SECTION_HEADER \<Rightarrow> ULONGLONG \<Rightarrow> int" where
  "spec_offset s r = uint r - uint (sh_VirtualAddress s) + uint (sh_PointerToRawData s)"

definition file_size :: "Clibpe \<Rightarrow> int" where
  "file_size st = int (length (m_spnData st))"

definition vrange32 :: "IMAGE_SECTION_HEADER \<Rightarrow> ULONGLONG \<Rightarrow> bool" where
  "vrange32 s r \<longleftrightarrow>
     uint (sh_VirtualAddress s) \<le> uint r
     \<and> uint r < (uint (sh_VirtualAddress s) + uint (sh_VirtualSize s)) mod 2 ^ 32"

text \<open>
  The claim on \<^verbatim>\<open>offset_from_rva\<close> for an RVA in exactly one section, as the spec words it.
\<close>

definition claim_offset_from_rva :: "Clibpe \<Rightarrow> ULONGLONG \<Rightarrow> bool" where
  "claim_offset_from_rva st r \<longleftrightarrow>
     (m_fLoaded st \<longrightarrow>
       (\<forall>i < length (m_vecSecHeaders st).
          spec_in_vrange (SecHdr (m_vecSecHeaders st ! i)) r
          \<and> (\<forall>j < length (m_vecSecHeaders st).
                 spec_in_vrange (SecHdr (m_vecSecHeaders st ! j)) r \<longrightarrow> j = i)
          \<longrightarrow> (if spec_offset (SecHdr (m_vecSecHeaders st ! i)) r \<le> file_size st
               then uint (GetOffsetFromRVA st r) = spec_offset (SecHdr (m_vecSecHeaders st ! i)) r
               else GetOffsetFromRVA st r = 0))
       \<and> ((\<forall>i < length (m_vecSecHeaders st).
               \<not> spec_in_vrange (SecHdr (m_vecSecHeaders st ! i)) r)
            \<longrightarrow> GetOffsetFromRVA st r = 0))"

text \<open>
  The claim that the last section whose virtual range contains the RVA decides the result,
  with the ranges and the offset read over the integers.
\<close>

definition claim_offset_from_rva_last :: "Clibpe \<Rightarrow> ULONGLONG \<Rightarrow> bool" where
  "claim_offset_from_rva_last st r \<longleftrightarrow>
     (\<not> m_fLoaded st \<longrightarrow> GetOffsetFromRVA st r = 0)
     \<and> ((\<forall>s \<in> set (m_vecSecHeaders st). \<not> spec_in_vrange (SecHdr s) r)
          \<longrightarrow> GetOffsetFromRVA st r = 0)
     \<and> (m_fLoaded st \<and> filter (\<lambda>s. spec_in_vrange (SecHdr s) r) (m_vecSecHeaders st) \<noteq> []
          \<longrightarrow> uint (GetOffsetFromRVA st r) =
               (let v = spec_offset
                          (SecHdr (last (filter (\<lambda>s. spec_in_vrange (SecHdr s) r)
                                            (m_vecSecHeaders st)))) r
                in if v > file_size st then 0 else v))"

section \<open>Concrete parser states\<close>

text \<open>A loaded parser over a file of \<open>n\<close> zero bytes with the given section table.\<close>

definition mk_sec :: "DWORD \<Rightarrow> DWORD \<Rightarrow> DWORD \<Rightarrow> PESECHDR" where
  "mk_sec va vs raw =
     \<lparr>sec_dwOffset = 0,
      SecHdr = \<lparr>sh_Name = [], sh_VirtualSize = vs, sh_VirtualAddress = va,
                 sh_SizeOfRawData = vs, sh_PointerToRawData = raw\<rparr>,
      SecName = []\<rparr>"

definition mk_loaded :: "nat \<Rightarrow> PESECHDR list \<Rightarrow> Clibpe" where
  "mk_loaded n secs =
     (Clibpe_init 0x10000)
       \<lparr>m_fLoaded := True, m_spnData := replicate n 0, m_vecSecHeaders := secs\<rparr>"

text \<open>
  A file of 300 bytes with the DOS signature and \<^verbatim>\<open>e_lfanew = -4\<close> (\<open>FC FF FF FF\<close> at 0x3C).
\<close>

definition img_neg_lfanew :: "byte list" where
  "img_neg_lfanew = [0x4D, 0x5A] @ replicate 58 0 @ [0xFC, 0xFF, 0xFF, 0xFF] @ replicate 236 0"

section \<open>The file as the spec sees it\<close>











text \<open>
  A Rich stub under the key 0x11223344 with one entry (first DWORD 0x12340001, count 5),
  "Rich" at 0x98; \<open>rich_img pad\<close> is a file with \<^verbatim>\<open>e_lfanew = 0xA0\<close> of \<open>0xA0 + pad\<close> bytes.
\<close>

definition rich_stub :: "byte list" where
  "rich_stub =
     [0x00, 0x52, 0x4C, 0x42,  0x44, 0x33, 0x22, 0x11,  0x44, 0x33, 0x22, 0x11,  0x44, 0x33, 0x22, 0x11,
      0x45, 0x33, 0x16, 0x03,  0x41, 0x33, 0x22, 0x11,
      0x52, 0x69, 0x63, 0x68,  0x44, 0x33, 0x22, 0x11]"

definition rich_img :: "nat \<Rightarrow> byte list" where
  "rich_img pad = [0x4D, 0x5A] @ replicate 58 0 @ [0xA0, 0, 0, 0] @ replicate 64 0 @ rich_stub
                  @ replicate pad 0"

definition rich_st :: "nat \<Rightarrow> Clibpe" where
  "rich_st pad = (Clibpe_init 0x10000)\<lparr>m_spnData := rich_img pad\<rparr>"


section \<open>Concrete files\<close>

text \<open>
  A PE32 file with one section (\<open>.data\<close>, RVA \<open>0x1000\<close>, raw data at \<open>0x160\<close>, \<open>0x4A\<close> bytes). Its export
  directory entry is \<open>(0x1000, 0x40)\<close>; the directory names one function, whose RVA \<open>0x1040\<close> is
  the first address after the export directory's range. The bytes there spell \<open>NTDLL.Foo\<close>.
\<close>

definition export_img :: "byte list" where
  "export_img =
     [0x4D, 0x5A]
     @ replicate 58 0
     @ [0x40, 0x00, 0x00, 0x00, 0x50, 0x45, 0x00, 0x00, 0x4C, 0x01, 0x01]
     @ replicate 13 0
     @ [0xE0, 0x00, 0x00, 0x00, 0x0B, 0x01]
     @ replicate 28 0
     @ [0x40]
     @ replicate 61 0
     @ [0x10, 0x00, 0x00, 0x00, 0x00, 0x10, 0x00, 0x00, 0x40]
     @ replicate 123 0
     @ [0x2E, 0x64, 0x61, 0x74, 0x61, 0x00, 0x00, 0x00, 0x00, 0x10, 0x00, 0x00, 0x00, 0x10,
      0x00, 0x00, 0x4A, 0x00, 0x00, 0x00, 0x60, 0x01]
     @ replicate 38 0
     @ [0x01, 0x00, 0x00, 0x00, 0x00, 0x00, 0x00, 0x00, 0x30, 0x10]
     @ replicate 18 0
     @ [0x40, 0x10]
     @ replicate 14 0
     @ [0x4E, 0x54, 0x44, 0x4C, 0x4C, 0x2E, 0x46, 0x6F, 0x6F, 0x00]"

text \<open>
  The parser as \<^verbatim>\<open>LoadPe\<close> leaves it before the directories of a PE32 file mapped at \<open>0x10000\<close>
  whose NT headers are at offset \<open>0x40\<close>.
\<close>

definition pe32_state :: "byte list \<Rightarrow> Clibpe" where
  "pe32_state img =
     (Clibpe_init 0x10000)
       \<lparr>m_fLoaded := True, m_spnData := img, m_pNTHeader32 := 0x10040,
        m_stFileInfo := PEFILEINFO_init\<lparr>IsPE32 := True, HasDosHdr := True, HasNTHdr := True\<rparr>\<rparr>"

text \<open>
  The spec's forwarder test: the function's RVA lies in the half-open range of the export
  directory entry.
\<close>

definition claim_is_forwarder :: "DWORD \<Rightarrow> DWORD \<Rightarrow> DWORD \<Rightarrow> bool" where
  "claim_is_forwarder dwStart dwSize rva \<longleftrightarrow>
     uint dwStart \<le> uint rva \<and> uint rva < uint dwStart + uint dwSize"

text \<open>
  A PE32+ file with one section at RVA \<open>0x80000000\<close> (raw data at \<open>0x170\<close>). Its import directory has
  one descriptor, for \<open>a.dll\<close>, with one thunk \<open>0x80000040\<close>: bit 63 is clear, bit 31 is set, and the
  RVA \<open>0x80000040\<close> holds an \<^verbatim>\<open>IMAGE_IMPORT_BY_NAME\<close> with hint \<open>1\<close> and name \<open>Foo\<close>.
\<close>

definition import64_img :: "byte list" where
  "import64_img =
     [0x4D, 0x5A]
     @ replicate 58 0
     @ [0x40, 0x00, 0x00, 0x00, 0x50, 0x45, 0x00, 0x00, 0x64, 0x86, 0x01]
     @ replicate 13 0
     @ [0xF0, 0x00, 0x00, 0x00, 0x0B, 0x02]
     @ replicate 24 0
     @ [0x40]
     @ replicate 81 0
     @ [0x10]
     @ replicate 14 0
     @ [0x80, 0x28]
     @ replicate 115 0
     @ [0x2E, 0x64, 0x61, 0x74, 0x61, 0x00, 0x00, 0x00, 0x00, 0x10, 0x00, 0x00, 0x00, 0x00,
      0x00, 0x80, 0x56, 0x00, 0x00, 0x00, 0x70, 0x01]
     @ replicate 18 0
     @ [0x30, 0x00, 0x00, 0x80]
     @ replicate 8 0
     @ [0x50, 0x00, 0x00, 0x80]
     @ replicate 32 0
     @ [0x40, 0x00, 0x00, 0x80]
     @ replicate 12 0
     @ [0x01, 0x00, 0x46, 0x6F, 0x6F]
     @ replicate 11 0
     @ [0x61, 0x2E, 0x64, 0x6C, 0x6C, 0x00]"

text \<open>The same for a PE32+ file.\<close>

definition pe64_state :: "byte list \<Rightarrow> Clibpe" where
  "pe64_state img =
     (Clibpe_init 0x10000)
       \<lparr>m_fLoaded := True, m_spnData := img, m_pNTHeader64 := 0x10040,
        m_stFileInfo := PEFILEINFO_init\<lparr>IsPE64 := True, HasDosHdr := True, HasNTHdr := True\<rparr>\<rparr>"

section \<open>Properties of the address translation\<close>

lemma uint_ucast_32_64: "uint (ucast (w :: 32 word) :: 64 word) = uint w"
  by (simp add: uint_up_ucast is_up)

lemma uint_ucast_64_32: "uint (ucast (w :: 64 word) :: 32 word) = uint w mod 2 ^ 32"
  by (simp add: unsigned_ucast_eq take_bit_eq_mod)

lemma sec_contains_iff:
  "sec_contains s r \<longleftrightarrow>
     uint (sh_VirtualAddress (SecHdr s)) \<le> uint r
     \<and> uint r < (uint (sh_VirtualAddress (SecHdr s)) + uint (sh_VirtualSize (SecHdr s))) mod 2 ^ 32"
  by (simp add: sec_contains_def Let_def word_le_def word_less_def uint_word_ariths uint_ucast_32_64)

lemma sec_contains_imp_spec: "sec_contains s r \<Longrightarrow> spec_in_vrange (SecHdr s) r"
proof -
  assume a: "sec_contains s r"
  have "(uint (sh_VirtualAddress (SecHdr s)) + uint (sh_VirtualSize (SecHdr s))) mod 2 ^ 32
        \<le> uint (sh_VirtualAddress (SecHdr s)) + uint (sh_VirtualSize (SecHdr s))"
    by (rule zmod_le_nonneg_dividend) simp
  with a show ?thesis
    unfolding sec_contains_iff spec_in_vrange_def by linarith
qed

lemma spec_imp_sec_contains:
  "spec_in_vrange (SecHdr s) r \<Longrightarrow>
   uint (sh_VirtualAddress (SecHdr s)) + uint (sh_VirtualSize (SecHdr s)) < 2 ^ 32 \<Longrightarrow>
   sec_contains s r"
  unfolding sec_contains_iff spec_in_vrange_def by simp

lemma uint_offset_arith:
  "uint ((ucast (r :: 64 word) :: 32 word) - (a - b)) = (uint r - uint a + uint b) mod 2 ^ 32"
proof -
  have "uint ((ucast r :: 32 word) - (a - b)) = (uint r mod 2 ^ 32 - (uint a - uint b) mod 2 ^ 32) mod 2 ^ 32"
    by (simp add: uint_word_ariths uint_ucast_64_32)
  also have "\<dots> = (uint r - (uint a - uint b)) mod 2 ^ 32"
    by (simp add: mod_simps)
  finally show ?thesis by (simp add: algebra_simps)
qed

lemma uint_datasize32: "uint (ucast (GetDataSize st) :: 32 word) = file_size st mod 2 ^ 32"
proof -
  have "uint (ucast (GetDataSize st) :: 32 word) = (int (length (m_spnData st)) mod 2 ^ 64) mod 2 ^ 32"
    by (simp add: uint_ucast_64_32 GetDataSize_def take_bit_eq_mod unsigned_of_nat of_nat_mod)
  also have "\<dots> = int (length (m_spnData st)) mod 2 ^ 32"
    by (rule mod_mod_cancel) simp
  finally show ?thesis by (simp add: file_size_def)
qed

lemma sec_offset_uint:
  "uint (sec_offset st r s) =
     (let v = (uint r - uint (sh_VirtualAddress (SecHdr s)) + uint (sh_PointerToRawData (SecHdr s))) mod 2 ^ 32
      in if v > file_size st mod 2 ^ 32 then 0 else v)"
  by (simp add: sec_offset_def Let_def word_less_def uint_datasize32 uint_offset_arith
        )

lemma foldl_no_match:
  "\<forall>s \<in> set xs. \<not> sec_contains s r \<Longrightarrow> foldl (RVAToOffset_step st r) acc xs = acc"
  by (induction xs arbitrary: acc) (simp_all add: RVAToOffset_step_def)

lemma foldl_last_match:
  "filter (\<lambda>s. sec_contains s r) xs \<noteq> [] \<Longrightarrow>
   foldl (RVAToOffset_step st r) acc xs = sec_offset st r (last (filter (\<lambda>s. sec_contains s r) xs))"
  by (induction xs rule: rev_induct) (auto simp: RVAToOffset_step_def)

lemma sec_contains_vrange32: "sec_contains s r = vrange32 (SecHdr s) r"
  by (simp add: sec_contains_iff vrange32_def)

lemma RVAToOffset_unique:
  assumes i: "i < length (m_vecSecHeaders st)"
    and c: "sec_contains (m_vecSecHeaders st ! i) r"
    and u: "\<forall>j < length (m_vecSecHeaders st). sec_contains (m_vecSecHeaders st ! j) r \<longrightarrow> j = i"
  shows "RVAToOffset st r = sec_offset st r (m_vecSecHeaders st ! i)"
proof -
  let ?xs = "m_vecSecHeaders st"
  have split: "?xs = take i ?xs @ ?xs ! i # drop (Suc i) ?xs"
    using i by (simp add: id_take_nth_drop)
  have pre: "\<forall>s \<in> set (take i ?xs). \<not> sec_contains s r"
  proof
    fix s assume "s \<in> set (take i ?xs)"
    then obtain j where "j < i" "s = ?xs ! j"
      using i by (auto simp: in_set_conv_nth)
    with u i show "\<not> sec_contains s r"
      by (metis less_trans less_irrefl)
  qed
  have post: "\<forall>s \<in> set (drop (Suc i) ?xs). \<not> sec_contains s r"
  proof
    fix s assume "s \<in> set (drop (Suc i) ?xs)"
    then obtain k where "k < length ?xs - Suc i" "s = ?xs ! (Suc i + k)"
      by (auto simp: in_set_conv_nth)
    then have "Suc i + k < length ?xs" "s = ?xs ! (Suc i + k)" "Suc i + k \<noteq> i"
      by simp_all
    with u show "\<not> sec_contains s r" by blast
  qed
  have "RVAToOffset st r =
        foldl (RVAToOffset_step st r) 0 (take i ?xs @ ?xs ! i # drop (Suc i) ?xs)"
    unfolding RVAToOffset_def using split by simp
  also have "\<dots> = foldl (RVAToOffset_step st r) (RVAToOffset_step st r 0 (?xs ! i)) (drop (Suc i) ?xs)"
    by (simp add: foldl_no_match [OF pre])
  also have "\<dots> = RVAToOffset_step st r 0 (?xs ! i)"
    by (rule foldl_no_match [OF post])
  finally show ?thesis using c by (simp add: RVAToOffset_step_def)
qed

lemma RVAToOffset_none:
  "\<forall>s \<in> set (m_vecSecHeaders st). \<not> sec_contains s r \<Longrightarrow> RVAToOffset st r = 0"
  unfolding RVAToOffset_def by (rule foldl_no_match)

text \<open>
  C2 (amended). For a loaded parser and an RVA \<open>r\<close> that lies in the virtual range of exactly
  one section, where that section's \<open>VirtualAddress + VirtualSize\<close> fits in 32 bits, the value
  \<open>r - VirtualAddress + PointerToRawData\<close> is below \<open>2^32\<close> and the file is shorter than
  \<open>2^32\<close> bytes: \<^verbatim>\<open>GetOffsetFromRVA\<close> returns \<open>r - VirtualAddress + PointerToRawData\<close>
  when this does not exceed the file size, and 0 when it does. When no section's virtual
  range contains \<open>r\<close>, it returns 0.
\<close>

theorem offset_from_rva_unique_section:
  "m_fLoaded st \<longrightarrow>
     (\<forall>i < length (m_vecSecHeaders st).
        spec_in_vrange (SecHdr (m_vecSecHeaders st ! i)) r
        \<and> (\<forall>j < length (m_vecSecHeaders st).
               spec_in_vrange (SecHdr (m_vecSecHeaders st ! j)) r \<longrightarrow> j = i)
        \<and> uint (sh_VirtualAddress (SecHdr (m_vecSecHeaders st ! i)))
            + uint (sh_VirtualSize (SecHdr (m_vecSecHeaders st ! i))) < 2 ^ 32
        \<and> spec_offset (SecHdr (m_vecSecHeaders st ! i)) r < 2 ^ 32
        \<and> file_size st < 2 ^ 32
        \<longrightarrow> (if spec_offset (SecHdr (m_vecSecHeaders st ! i)) r \<le> file_size st
             then uint (GetOffsetFromRVA st r) = spec_offset (SecHdr (m_vecSecHeaders st ! i)) r
             else GetOffsetFromRVA st r = 0))
     \<and> ((\<forall>i < length (m_vecSecHeaders st).
             \<not> spec_in_vrange (SecHdr (m_vecSecHeaders st ! i)) r)
          \<longrightarrow> GetOffsetFromRVA st r = 0)"
proof (intro impI conjI allI)
  fix i
  assume ld: "m_fLoaded st" and i: "i < length (m_vecSecHeaders st)"
  assume h: "spec_in_vrange (SecHdr (m_vecSecHeaders st ! i)) r
        \<and> (\<forall>j < length (m_vecSecHeaders st).
               spec_in_vrange (SecHdr (m_vecSecHeaders st ! j)) r \<longrightarrow> j = i)
        \<and> uint (sh_VirtualAddress (SecHdr (m_vecSecHeaders st ! i)))
            + uint (sh_VirtualSize (SecHdr (m_vecSecHeaders st ! i))) < 2 ^ 32
        \<and> spec_offset (SecHdr (m_vecSecHeaders st ! i)) r < 2 ^ 32
        \<and> file_size st < 2 ^ 32"
  let ?s = "m_vecSecHeaders st ! i"
  have c: "sec_contains ?s r"
    using h by (simp add: spec_imp_sec_contains)
  have u: "\<forall>j < length (m_vecSecHeaders st). sec_contains (m_vecSecHeaders st ! j) r \<longrightarrow> j = i"
    using h sec_contains_imp_spec by blast
  have eq: "GetOffsetFromRVA st r = sec_offset st r ?s"
    using ld RVAToOffset_unique [OF i c u] by (simp add: GetOffsetFromRVA_def)
  have nonneg: "0 \<le> spec_offset (SecHdr ?s) r"
    using h by (simp add: spec_in_vrange_def spec_offset_def)
  have fs: "0 \<le> file_size st" by (simp add: file_size_def)
  have v: "spec_offset (SecHdr ?s) r mod 2 ^ 32 = spec_offset (SecHdr ?s) r"
    using nonneg h by simp
  have f: "file_size st mod 2 ^ 32 = file_size st"
    using fs h by simp
  have "uint (sec_offset st r ?s) =
        (if file_size st < spec_offset (SecHdr ?s) r then 0 else spec_offset (SecHdr ?s) r)"
    using v f by (simp add: sec_offset_uint Let_def spec_offset_def)
  then show "if spec_offset (SecHdr ?s) r \<le> file_size st
             then uint (GetOffsetFromRVA st r) = spec_offset (SecHdr ?s) r
             else GetOffsetFromRVA st r = 0"
    unfolding eq by (auto simp: word_uint_eq_iff)
next
  assume ld: "m_fLoaded st"
  assume n: "\<forall>i < length (m_vecSecHeaders st). \<not> spec_in_vrange (SecHdr (m_vecSecHeaders st ! i)) r"
  have "\<forall>s \<in> set (m_vecSecHeaders st). \<not> sec_contains s r"
    using n by (auto simp: in_set_conv_nth dest!: sec_contains_imp_spec)
  then show "GetOffsetFromRVA st r = 0"
    using ld by (simp add: GetOffsetFromRVA_def RVAToOffset_none)
qed

theorem offset_from_rva_unique_section_witness:
  "GetOffsetFromRVA (mk_loaded 4096 [mk_sec 0x1000 0x1000 0x400]) 0x1800 = 0xC00
   \<and> GetOffsetFromRVA (mk_loaded 4096 [mk_sec 0x1000 0x1000 0x400]) 0x3000 = 0"
  using offset_from_rva_unique_section [of "mk_loaded 4096 [mk_sec 0x1000 0x1000 0x400]" "0x1800"]
        offset_from_rva_unique_section [of "mk_loaded 4096 [mk_sec 0x1000 0x1000 0x400]" "0x3000"]
  by (simp add: mk_loaded_def Clibpe_init_def mk_sec_def spec_in_vrange_def spec_offset_def file_size_def
        word_uint_eq_iff)

text \<open>
  C2 as stated fails in three ways, all from the 32-bit arithmetic of \<^verbatim>\<open>RVAToOffset\<close>:
  a section whose \<open>VirtualAddress + VirtualSize\<close> passes \<open>2^32\<close> contains no RVA for the code;
  an offset that passes \<open>2^32\<close> wraps and is returned; the file size is compared after a
  cast to \<^verbatim>\<open>DWORD\<close>.
\<close>

theorem offset_from_rva_counterexample:
  "\<not> claim_offset_from_rva (mk_loaded 65536 [mk_sec 0xFFFFF000 0x2000 0x400]) 0xFFFFF800
   \<and> GetOffsetFromRVA (mk_loaded 65536 [mk_sec 0xFFFFF000 0x2000 0x400]) 0xFFFFF800 = 0
   \<and> \<not> claim_offset_from_rva (mk_loaded 65536 [mk_sec 0x1000 0x1000 0xFFFFFFFF]) 0x1800
   \<and> GetOffsetFromRVA (mk_loaded 65536 [mk_sec 0x1000 0x1000 0xFFFFFFFF]) 0x1800 = 0x7FF
   \<and> \<not> claim_offset_from_rva (mk_loaded (2 ^ 32 + 5) [mk_sec 0x1000 0x1000 0x400]) 0x1800
   \<and> GetOffsetFromRVA (mk_loaded (2 ^ 32 + 5) [mk_sec 0x1000 0x1000 0x400]) 0x1800 = 0"
  by (simp add: claim_offset_from_rva_def mk_loaded_def Clibpe_init_def mk_sec_def spec_in_vrange_def
        spec_offset_def file_size_def GetOffsetFromRVA_def RVAToOffset_def RVAToOffset_step_def
        sec_contains_def sec_offset_def GetDataSize_def Let_def)

text \<open>
  C10 (amended). \<^verbatim>\<open>GetOffsetFromRVA\<close> is a total function of the parser state and a 64-bit
  RVA. It returns 0 when the parser is not loaded, when no section's virtual range contains
  the RVA, and when the computed offset exceeds the file size. When the ranges of several
  sections contain the RVA, each range taken with its end \<open>VirtualAddress + VirtualSize\<close>
  modulo \<open>2^32\<close>, the result is computed from the last of them in the order of the section
  table: it is \<open>r - VirtualAddress + PointerToRawData\<close> modulo \<open>2^32\<close>, or 0 when that exceeds
  the file size modulo \<open>2^32\<close>. The value 0 is also the offset of a mapped RVA (last
  conjunct), so it does not identify a failure.
\<close>

theorem offset_from_rva_last_section:
  "(\<not> m_fLoaded st \<longrightarrow> GetOffsetFromRVA st r = 0)
   \<and> ((\<forall>s \<in> set (m_vecSecHeaders st). \<not> spec_in_vrange (SecHdr s) r)
        \<longrightarrow> GetOffsetFromRVA st r = 0)
   \<and> (filter (\<lambda>s. vrange32 (SecHdr s) r) (m_vecSecHeaders st) = []
        \<longrightarrow> GetOffsetFromRVA st r = 0)
   \<and> (m_fLoaded st \<and> filter (\<lambda>s. vrange32 (SecHdr s) r) (m_vecSecHeaders st) \<noteq> []
        \<longrightarrow> uint (GetOffsetFromRVA st r) =
             (let v = spec_offset
                        (SecHdr (last (filter (\<lambda>s. vrange32 (SecHdr s) r)
                                          (m_vecSecHeaders st)))) r mod 2 ^ 32
              in if v > file_size st mod 2 ^ 32 then 0 else v))
   \<and> (filter (\<lambda>s. vrange32 (SecHdr s) r) (m_vecSecHeaders st) \<noteq> []
        \<and> spec_offset
              (SecHdr (last (filter (\<lambda>s. vrange32 (SecHdr s) r) (m_vecSecHeaders st)))) r
              mod 2 ^ 32 > file_size st
        \<longrightarrow> GetOffsetFromRVA st r = 0)
   \<and> (\<exists>st' r'. m_fLoaded st' \<and> m_vecSecHeaders st' = [mk_sec 0x1000 0x1000 0]
        \<and> spec_in_vrange (SecHdr (mk_sec 0x1000 0x1000 0)) r'
        \<and> spec_offset (SecHdr (mk_sec 0x1000 0x1000 0)) r' = 0
        \<and> GetOffsetFromRVA st' r' = 0)"
proof -
  let ?f = "filter (\<lambda>s. vrange32 (SecHdr s) r) (m_vecSecHeaders st)"
  have f_eq: "filter (\<lambda>s. sec_contains s r) (m_vecSecHeaders st) = ?f"
    by (simp add: sec_contains_vrange32)
  have p1: "\<not> m_fLoaded st \<longrightarrow> GetOffsetFromRVA st r = 0"
    by (simp add: GetOffsetFromRVA_def)
  have none: "?f = [] \<Longrightarrow> GetOffsetFromRVA st r = 0"
  proof -
    assume "?f = []"
    then have "\<forall>s \<in> set (m_vecSecHeaders st). \<not> sec_contains s r"
      by (simp add: filter_empty_conv sec_contains_vrange32)
    then show ?thesis by (simp add: GetOffsetFromRVA_def RVAToOffset_none)
  qed
  have p2: "(\<forall>s \<in> set (m_vecSecHeaders st). \<not> spec_in_vrange (SecHdr s) r)
        \<longrightarrow> GetOffsetFromRVA st r = 0"
  proof
    assume "\<forall>s \<in> set (m_vecSecHeaders st). \<not> spec_in_vrange (SecHdr s) r"
    then have "\<forall>s \<in> set (m_vecSecHeaders st). \<not> sec_contains s r"
      using sec_contains_imp_spec by blast
    then show "GetOffsetFromRVA st r = 0" by (simp add: GetOffsetFromRVA_def RVAToOffset_none)
  qed
  have some: "?f \<noteq> [] \<Longrightarrow> RVAToOffset st r = sec_offset st r (last ?f)"
    unfolding RVAToOffset_def using foldl_last_match [of r "m_vecSecHeaders st" st 0]
    by (simp add: f_eq)
  have p4: "m_fLoaded st \<and> ?f \<noteq> []
        \<longrightarrow> uint (GetOffsetFromRVA st r) =
             (let v = spec_offset (SecHdr (last ?f)) r mod 2 ^ 32
              in if v > file_size st mod 2 ^ 32 then 0 else v)"
    using some by (simp add: GetOffsetFromRVA_def sec_offset_uint spec_offset_def Let_def)
  have le: "file_size st mod 2 ^ 32 \<le> file_size st"
    by (rule zmod_le_nonneg_dividend) (simp add: file_size_def)
  have p5: "?f \<noteq> [] \<and> spec_offset (SecHdr (last ?f)) r mod 2 ^ 32 > file_size st
        \<longrightarrow> GetOffsetFromRVA st r = 0"
  proof
    assume a: "?f \<noteq> [] \<and> spec_offset (SecHdr (last ?f)) r mod 2 ^ 32 > file_size st"
    then have "uint (sec_offset st r (last ?f)) = 0"
      using le by (simp add: sec_offset_uint spec_offset_def Let_def)
    then have "sec_offset st r (last ?f) = 0" by (simp add: word_uint_eq_iff)
    then show "GetOffsetFromRVA st r = 0"
      using a some by (simp add: GetOffsetFromRVA_def)
  qed
  have p6: "\<exists>st' r'. m_fLoaded st' \<and> m_vecSecHeaders st' = [mk_sec 0x1000 0x1000 0]
        \<and> spec_in_vrange (SecHdr (mk_sec 0x1000 0x1000 0)) r'
        \<and> spec_offset (SecHdr (mk_sec 0x1000 0x1000 0)) r' = 0
        \<and> GetOffsetFromRVA st' r' = 0"
    by (rule exI [of _ "mk_loaded 4096 [mk_sec 0x1000 0x1000 0]"], rule exI [of _ "0x1000"])
       (simp add: mk_loaded_def Clibpe_init_def mk_sec_def spec_in_vrange_def spec_offset_def GetOffsetFromRVA_def
          RVAToOffset_def RVAToOffset_step_def sec_contains_def sec_offset_def GetDataSize_def Let_def)
  from p1 p2 none p4 p5 p6 show ?thesis by blast
qed

theorem offset_from_rva_last_section_witness:
  "GetOffsetFromRVA (mk_loaded 65536 [mk_sec 0 0x2000 0x400, mk_sec 0x1000 0x2000 0x800]) 0x1800 = 0x1000
   \<and> GetOffsetFromRVA (mk_loaded 4096 [mk_sec 0 0x2000 0x400, mk_sec 0x1000 0x2000 0x800]) 0x2800 = 0
   \<and> GetOffsetFromRVA (mk_loaded 4096 [mk_sec 0 0x2000 0x400, mk_sec 0x1000 0x2000 0x800]) 0x5000 = 0"
  using offset_from_rva_last_section
          [of "mk_loaded 65536 [mk_sec 0 0x2000 0x400, mk_sec 0x1000 0x2000 0x800]" "0x1800"]
        offset_from_rva_last_section
          [of "mk_loaded 4096 [mk_sec 0 0x2000 0x400, mk_sec 0x1000 0x2000 0x800]" "0x2800"]
        offset_from_rva_last_section
          [of "mk_loaded 4096 [mk_sec 0 0x2000 0x400, mk_sec 0x1000 0x2000 0x800]" "0x5000"]
  by (simp add: mk_loaded_def Clibpe_init_def mk_sec_def vrange32_def spec_in_vrange_def spec_offset_def
        file_size_def word_uint_eq_iff)

text \<open>
  C10 with the virtual ranges read over the integers fails: the last section whose range
  contains the RVA is skipped by the code when its \<open>VirtualAddress + VirtualSize\<close> passes
  \<open>2^32\<close>, and an earlier section decides.
\<close>

theorem offset_from_rva_last_counterexample:
  "\<not> claim_offset_from_rva_last
       (mk_loaded 65536 [mk_sec 0 0x2000 0x400, mk_sec 0x1000 0xFFFFFFFF 0x800]) 0x1800
   \<and> GetOffsetFromRVA
       (mk_loaded 65536 [mk_sec 0 0x2000 0x400, mk_sec 0x1000 0xFFFFFFFF 0x800]) 0x1800 = 0x1C00
   \<and> \<not> claim_offset_from_rva_last (mk_loaded 65536 [mk_sec 0x1000 0x1000 0xFFFFFFFF]) 0x1800
   \<and> \<not> claim_offset_from_rva_last (mk_loaded (2 ^ 32 + 5) [mk_sec 0x1000 0x1000 0x400]) 0x1800"
  by (simp add: claim_offset_from_rva_last_def mk_loaded_def Clibpe_init_def mk_sec_def spec_in_vrange_def
        spec_offset_def file_size_def GetOffsetFromRVA_def RVAToOffset_def RVAToOffset_step_def
        sec_contains_def sec_offset_def GetDataSize_def Let_def)

section \<open>Loading\<close>

text \<open>
  C1 (the code departs from the claim). On the 300-byte file with the DOS signature and
  \<^verbatim>\<open>e_lfanew = -4\<close>, \<^verbatim>\<open>ParseNTFileOptHeader\<close> places the NT headers 4 bytes before the view;
  the address past their end lies inside the view, \<^verbatim>\<open>IsPtrSafe\<close> accepts it, and the read of
  \<^verbatim>\<open>Signature\<close> leaves the buffer: \<^verbatim>\<open>LoadPe\<close> has no result there, whatever the directory
  parsers are.
\<close>

theorem LoadPe_reads_before_buffer:
  "LoadPe ParseDirectories img_neg_lfanew (Clibpe_init 0x10000) = None"
  by (simp add: LoadPe_def img_neg_lfanew_def Clibpe_init_def ParseMSDOSHeader_def GetDosPtr_def
        rd16_def rd_bytes_def in_view_def IMAGE_DOS_SIGNATURE_def ParseRichHeader_def rd32_def
        GetBaseAddr_def ParseNTFileOptHeader_def IsPtrSafe_def GetDataSize_def word_sle_eq)

section \<open>Reading by offset\<close>






section \<open>The Rich stub: the loops\<close>





lemma ptr_add_assoc: "(p :: 64 word) + word_of_nat a + word_of_nat b = p + word_of_nat (a + b)"
  by simp







section \<open>The Rich stub\<close>



lemmas rd_defs = rd8_def rd16_def rd32_def rd64_def rd_bytes_def in_view_def

lemma len16: "length (rich_img 16) = 176"
  by (simp add: rich_img_def rich_stub_def)

lemma r1: "rd32 (rich_st 16) 0x1003C = Some 0xA0"
  by (simp add: rich_st_def Clibpe_init_def rd_defs rich_img_def rich_stub_def)

lemma r2: "rd32 (rich_st 16) 0x10098 = Some 0x68636952"
  by (simp add: rich_st_def Clibpe_init_def rd_defs rich_img_def rich_stub_def)



lemma bind_weak_cong: "m = m' \<Longrightarrow> Option.bind m f = Option.bind m' f"
  by simp








section \<open>Evaluating the directory parsers\<close>

lemma GetSecHdrFromRVA_loop_numeral:
  "GetSecHdrFromRVA_loop st r p (numeral k) = GetSecHdrFromRVA_loop st r p (Suc (pred_numeral k))"
  by (simp only: numeral_eq_Suc)

lemma StringCchLengthA_numeral:
  "StringCchLengthA st p (numeral k) = StringCchLengthA st p (Suc (pred_numeral k))"
  by (simp only: numeral_eq_Suc)

lemma export_name_loop_numeral:
  "export_name_loop st a b c d (numeral k) = export_name_loop st a b c d (Suc (pred_numeral k))"
  by (simp only: numeral_eq_Suc)

lemma export_funcs_loop_numeral:
  "export_funcs_loop st a b c d e f g (numeral k) v = export_funcs_loop st a b c d e f g (Suc (pred_numeral k)) v"
  by (simp only: numeral_eq_Suc)

lemmas addr_eval = GetDirEntryRVA_def GetDirEntrySize_def GetImageBase_def IMAGE_FIRST_SECTION_def
  GetSecHdrFromRVA_def GetSecHdrFromRVA_loop_numeral RVAToPtr_def read_name_def MAX_PATH_def
  StringCchLengthA_numeral rd_defs IsPtrSafe_def PtrToOffset_def
  GetBaseAddr_def GetDataSize_def Clibpe_init_def PEFILEINFO_init_def pe32_state_def Let_def

lemma le_nat_replicate0: "le_nat (replicate n 0) = 0"
  by (induction n) simp_all

lemma le_nat_replicate0_append: "le_nat (replicate n 0 @ bs) = 256 ^ n * le_nat bs"
  by (induction n) simp_all

lemmas export_eval = ParseExport_def IMAGE_DIRECTORY_ENTRY_EXPORT_def export_funcs_loop_numeral
  export_name_loop_numeral addr_eval le_nat_replicate0 le_nat_replicate0_append

section \<open>Export forwarders\<close>

text \<open>
  Claim C7. An exported function is a forwarder iff its RVA lies in the half-open range
  \<open>[start, start + size)\<close> of the export directory entry. \<^verbatim>\<open>ParseExport\<close> compares with \<open>\<le>\<close> at the upper
  end: in \<open>export_img\<close> the function's RVA \<open>0x1040\<close> equals \<open>start + size\<close>, it is no forwarder by the
  claim, and the parser records the bytes \<open>NTDLL.Foo\<close> found there as its forwarder name.
\<close>

theorem ParseExport_forwarder_at_end:
  "GetDirEntryRVA (pe32_state export_img) IMAGE_DIRECTORY_ENTRY_EXPORT = Some 0x1000
   \<and> GetDirEntrySize (pe32_state export_img) IMAGE_DIRECTORY_ENTRY_EXPORT = Some 0x40
   \<and> \<not> claim_is_forwarder 0x1000 0x40 0x1040
   \<and> map_option (\<lambda>(ok, st'). (ok, map (\<lambda>f. (dwFuncRVA f, ForwarderName f)) (vecFuncs (m_stExport st'))))
        (ParseExport (pe32_state export_img))
     = Some (True, [(0x1040, [0x4E, 0x54, 0x44, 0x4C, 0x4C, 0x2E, 0x46, 0x6F, 0x6F])])"
  by (simp add: export_eval export_img_def claim_is_forwarder_def del: Suc_numeral cong: bind_weak_cong)

section \<open>Imports\<close>

lemmas import_eval = ParseImport_def IMAGE_DIRECTORY_ENTRY_IMPORT_def import_desc32_loop.simps
  import_desc64_loop.simps import_thunk32_loop.simps import_thunk64_loop.simps
  read_import_by_name_def IMAGE_IMPORT_BY_NAME_zero_def IMAGE_ORDINAL_FLAG32_def
  IMAGE_ORDINAL_FLAG64_def iMaxModules_def iMaxFuncs_def pe64_state_def
  addr_eval le_nat_replicate0 le_nat_replicate0_append

lemma count_up_two:
  fixes c m :: "32 word"
  assumes "c + 1 \<noteq> m" and "c + 1 + 1 \<noteq> m"
  shows "unat (m - 1 - (c + 1 + 1)) + 2 = unat (m - 1 - c)"
proof -
  have nz: "m - 1 - c \<noteq> 0"
  proof
    assume "m - 1 - c = 0"
    hence "m = c + 1" by (simp add: algebra_simps)
    thus False using assms(1) by simp
  qed
  have nz': "m - 1 - c - 1 \<noteq> 0"
  proof
    assume "m - 1 - c - 1 = 0"
    hence "m = c + 1 + 1" by (simp add: algebra_simps)
    thus False using assms(2) by simp
  qed
  have eq: "m - 1 - (c + 1 + 1) = m - 1 - c - 1 - 1" by (simp add: algebra_simps)
  have a: "unat (m - 1 - c - 1) = unat (m - 1 - c) - 1" by (rule unat_minus_one [OF nz])
  have b: "unat (m - 1 - c - 1 - 1) = unat (m - 1 - c - 1) - 1" by (rule unat_minus_one [OF nz'])
  have p: "0 < unat (m - 1 - c)" by (rule iffD2 [OF unat_gt_0 nz])
  have q: "0 < unat (m - 1 - c - 1)" by (rule iffD2 [OF unat_gt_0 nz'])
  show ?thesis unfolding eq using a b p q by linarith
qed

lemma import_thunk64_loop_length:
  "import_thunk64_loop st p c v = Some r \<Longrightarrow>
   length r \<le> length v + unat (iMaxFuncs - 1 - c) div 2 + 1"
proof (induction st p c v rule: import_thunk64_loop.induct)
  case (1 st pThunk64 iFuncsCount vecFunc)
  from "1.prems" obtain thunk where t: "rd64 st pThunk64 = Some thunk"
    by (subst (asm) import_thunk64_loop.simps) (auto simp: bind_eq_Some_conv)
  show ?case
  proof (cases "thunk = 0")
    case True
    with "1.prems" t show ?thesis by (subst (asm) import_thunk64_loop.simps) simp
  next
    case False
    from "1.prems" t False obtain x where
      x: "(if thunk AND ucast IMAGE_ORDINAL_FLAG32 = 0 then read_import_by_name st thunk
           else Some (IMAGE_IMPORT_BY_NAME_zero, [])) = Some x"
      by (subst (asm) import_thunk64_loop.simps) (auto simp: bind_eq_Some_conv)
    obtain a b where ab: "x = (a, b)" by (cases x)
    let ?f = "\<lparr>unThunk = Thunk64 thunk, stImpByName = a, imp_FuncName = b\<rparr>"
    have step: "(if iFuncsCount + 1 = iMaxFuncs then Some (vecFunc @ [?f])
                 else if iFuncsCount + 1 + 1 = iMaxFuncs then Some (vecFunc @ [?f])
                 else import_thunk64_loop st (pThunk64 + 8) (iFuncsCount + 1 + 1) (vecFunc @ [?f]))
                = Some r"
      using "1.prems" t False x ab
      by (subst (asm) import_thunk64_loop.simps) simp
    show ?thesis
    proof (cases "iFuncsCount + 1 = iMaxFuncs \<or> iFuncsCount + 1 + 1 = iMaxFuncs")
      case True
      with step have "r = vecFunc @ [?f]" by (auto split: if_splits)
      thus ?thesis by simp
    next
      case F2: False
      hence n1: "iFuncsCount + 1 \<noteq> iMaxFuncs" and n2: "iFuncsCount + 1 + 1 \<noteq> iMaxFuncs" by blast+
      from step n1 n2 have rec:
        "import_thunk64_loop st (pThunk64 + 8) (iFuncsCount + 1 + 1) (vecFunc @ [?f]) = Some r"
        by (simp only: if_False)
      have ih: "length r \<le> length (vecFunc @ [?f]) + unat (iMaxFuncs - 1 - (iFuncsCount + 1 + 1)) div 2 + 1"
        by (rule "1.IH" [OF t False x ab [symmetric] n1 n2 rec])
      have "unat (iMaxFuncs - 1 - (iFuncsCount + 1 + 1)) + 2 = unat (iMaxFuncs - 1 - iFuncsCount)"
        by (rule count_up_two [OF n1 n2])
      with ih show ?thesis by simp
    qed
  qed
qed

lemma import_thunk64_loop_le_2500:
  assumes "import_thunk64_loop st p 0 [] = Some r"
  shows "length r \<le> 2500"
proof -
  have "length r \<le> length ([] :: PEImportFunction list) + unat (iMaxFuncs - 1 - 0) div 2 + 1"
    by (rule import_thunk64_loop_length [OF assms])
  thus ?thesis by (simp add: iMaxFuncs_def)
qed

lemma bindE:
  assumes "Option.bind m f = Some y"
  obtains x where "m = Some x" and "f x = Some y"
  using assms by (cases m) simp_all

lemma import_desc64_loop_cases:
  assumes "import_desc64_loop st p c v = Some (ok, r)"
  shows "r = v
       \<or> (\<exists>pThunk64 vecFunc m. import_thunk64_loop st pThunk64 0 [] = Some vecFunc
             \<and> vecImportFunc m = vecFunc
             \<and> (r = v @ [m]
                \<or> c + 1 \<noteq> iMaxModules
                  \<and> import_desc64_loop st (p + 20) (c + 1) (v @ [m]) = Some (ok, r)))
       \<or> c + 1 \<noteq> iMaxModules \<and> import_desc64_loop st (p + 20) (c + 1) v = Some (ok, r)"
  using assms
  apply (subst (asm) import_desc64_loop.simps)
  apply ((erule bindE | split if_split_asm | force)+)
  done

lemma import_desc64_loop_funcs:
  "import_desc64_loop st p c v = Some (ok, r) \<Longrightarrow>
   list_all (\<lambda>m. length (vecImportFunc m) \<le> 2500) v \<Longrightarrow>
   list_all (\<lambda>m. length (vecImportFunc m) \<le> 2500) r"
proof (induction "unat (iMaxModules - 1 - c)" arbitrary: p c v rule: less_induct)
  case less
  from import_desc64_loop_cases [OF less.prems(1)]
  consider (stop) "r = v"
    | (push) pThunk64 m where "import_thunk64_loop st pThunk64 0 [] = Some (vecImportFunc m)"
        and "r = v @ [m]"
    | (push_next) pThunk64 m where "import_thunk64_loop st pThunk64 0 [] = Some (vecImportFunc m)"
        and "c + 1 \<noteq> iMaxModules"
        and "import_desc64_loop st (p + 20) (c + 1) (v @ [m]) = Some (ok, r)"
    | (skip_next) "c + 1 \<noteq> iMaxModules"
        and "import_desc64_loop st (p + 20) (c + 1) v = Some (ok, r)"
    by blast
  thus ?case
  proof cases
    case stop
    with less.prems(2) show ?thesis by simp
  next
    case push
    from push(1) have "length (vecImportFunc m) \<le> 2500" by (rule import_thunk64_loop_le_2500)
    with less.prems(2) push(2) show ?thesis by simp
  next
    case push_next
    from push_next(1) have "length (vecImportFunc m) \<le> 2500" by (rule import_thunk64_loop_le_2500)
    with less.prems(2) have "list_all (\<lambda>m. length (vecImportFunc m) \<le> 2500) (v @ [m])" by simp
    with less.hyps [OF count_up_measure [OF push_next(2)] push_next(3)] show ?thesis by blast
  next
    case skip_next
    from less.hyps [OF count_up_measure [OF skip_next(1)] skip_next(2) less.prems(2)]
    show ?thesis .
  qed
qed

text \<open>
  Claim C5. The import parser records at most 1000 modules per file and at most 5000 functions
  per module, for PE32 and for PE32+ files. In the PE32+ loop the counter is incremented twice
  for each recorded function, so the loop ends at 2500 functions: no module of a PE32+ file
  is given more than 2500 functions, whatever the file holds.
\<close>

theorem ParseImport_pe64_funcs_le_2500:
  assumes "ParseImport st = Some (ok, st')"
    and "\<not> IsPE32 (m_stFileInfo st)"
    and "m_vecImport st = []"
  shows "list_all (\<lambda>m. length (vecImportFunc m) \<le> 2500) (m_vecImport st')"
  using assms
  unfolding ParseImport_def
  apply -
  apply ((erule bindE | split if_split_asm | split prod.split_asm | force dest: import_desc64_loop_funcs)+)
  done

text \<open>The PE32+ file \<open>import64_img\<close> is parsed and has a module.\<close>

theorem ParseImport_pe64_funcs_le_2500_witness:
  "\<exists>ok st'. ParseImport (pe64_state import64_img) = Some (ok, st')
     \<and> \<not> IsPE32 (m_stFileInfo (pe64_state import64_img))
     \<and> m_vecImport (pe64_state import64_img) = []
     \<and> m_vecImport st' \<noteq> []
     \<and> list_all (\<lambda>m. length (vecImportFunc m) \<le> 2500) (m_vecImport st')"
proof -
  obtain st' where p: "ParseImport (pe64_state import64_img) = Some (True, st')"
    and ne: "m_vecImport st' \<noteq> []"
    by (simp add: import_eval import64_img_def del: Suc_numeral cong: bind_weak_cong)
  have a: "\<not> IsPE32 (m_stFileInfo (pe64_state import64_img))"
    by (simp add: pe64_state_def PEFILEINFO_init_def Clibpe_init_def)
  have b: "m_vecImport (pe64_state import64_img) = []"
    by (simp add: pe64_state_def PEFILEINFO_init_def Clibpe_init_def)
  from ParseImport_pe64_funcs_le_2500 [OF p a b] p a b ne show ?thesis by blast
qed

text \<open>
  Claim C4. The by-ordinal test uses bit 31 of a PE32 thunk and bit 63 of a PE32+ thunk, and a
  thunk whose bit is clear has its name recorded. In \<open>import64_img\<close> the thunk \<open>0x80000040\<close> has bit 63
  clear and its RVA holds the name \<open>Foo\<close>, but the PE32+ loop tests bit 31: the parser records the
  function with no name and a zero \<^verbatim>\<open>IMAGE_IMPORT_BY_NAME\<close>.
\<close>

theorem ParseImport_pe64_tests_bit31:
  "(0x80000040 :: ULONGLONG) AND IMAGE_ORDINAL_FLAG64 = 0
   \<and> read_import_by_name (pe64_state import64_img) 0x80000040
       = Some (\<lparr>ibn_Hint = 1, ibn_Name = 0x46\<rparr>, [0x46, 0x6F, 0x6F])
   \<and> map_option (\<lambda>(ok, st'). (ok, map (\<lambda>m. (imp_ModuleName m,
          map (\<lambda>f. (unThunk f, stImpByName f, imp_FuncName f)) (vecImportFunc m))) (m_vecImport st')))
        (ParseImport (pe64_state import64_img))
     = Some (True, [([0x61, 0x2E, 0x64, 0x6C, 0x6C],
                     [(Thunk64 0x80000040, \<lparr>ibn_Hint = 0, ibn_Name = 0\<rparr>, [])])])"
  by (simp add: import_eval import64_img_def del: Suc_numeral cong: bind_weak_cong)

end
